theory Spec2Isabelle
  imports Main
begin

section \<open>Day-night cycle: the TimeSpan value\<close>

text \<open>
  The plugin keeps every time as a count of minutes held in a JavaScript number.  The
  counts that occur are integers far below \<open>2^53\<close>, so the model uses \<open>int\<close>.
  Two operators of the source differ from HOL's and are written out:
  \<^item> \<^verbatim>\<open>a % b\<close> is the truncating remainder, whose sign follows the dividend;
  \<^item> \<^verbatim>\<open>Math.floor(a / b)\<close> with a positive constant \<open>b\<close> is the floor quotient, which
    is HOL's \<open>div\<close> on \<open>int\<close>.
\<close>

definition MINUTES_PER_HOUR :: int where
  "MINUTES_PER_HOUR = 60"

definition HOURS_PER_DAY :: int where
  "HOURS_PER_DAY = 24"

definition MINUTES_PER_DAY :: int where
  "MINUTES_PER_DAY = MINUTES_PER_HOUR * HOURS_PER_DAY"

definition js_rem :: "int \<Rightarrow> int \<Rightarrow> int" where
  \<comment> \<open>JavaScript \<^verbatim>\<open>a % b\<close> on integers, \<open>b \<noteq> 0\<close>\<close>
  "js_rem a b = sgn a * (\<bar>a\<bar> mod \<bar>b\<bar>)"

record TimeSpan =
  totalMinutes :: int

definition TimeSpan_new :: "int \<Rightarrow> int \<Rightarrow> int \<Rightarrow> TimeSpan" where
  \<comment> \<open>\<^verbatim>\<open>initialize(days, hours, minutes)\<close>; an omitted argument is 0\<close>
  "TimeSpan_new days hours minutes =
     \<lparr>totalMinutes = days * MINUTES_PER_DAY + hours * MINUTES_PER_HOUR + minutes\<rparr>"

definition getMinutes :: "TimeSpan \<Rightarrow> int" where
  "getMinutes this = js_rem (totalMinutes this) MINUTES_PER_HOUR"

definition getHours :: "TimeSpan \<Rightarrow> int" where
  "getHours this = js_rem (totalMinutes this div MINUTES_PER_HOUR) HOURS_PER_DAY"

definition getDays :: "TimeSpan \<Rightarrow> int" where
  "getDays this = totalMinutes this div MINUTES_PER_DAY"

definition getTotalHours :: "TimeSpan \<Rightarrow> int" where
  "getTotalHours this = totalMinutes this div MINUTES_PER_HOUR"

definition getTotalMinutes :: "TimeSpan \<Rightarrow> int" where
  "getTotalMinutes this = totalMinutes this"

definition getMinutesOfDay :: "TimeSpan \<Rightarrow> int" where
  "getMinutesOfDay this = js_rem (totalMinutes this) MINUTES_PER_DAY"

definition addMinutes :: "TimeSpan \<Rightarrow> int \<Rightarrow> TimeSpan" where
  \<comment> \<open>the method mutates \<^verbatim>\<open>this\<close>; the model returns the updated value\<close>
  "addMinutes this minutes = this\<lparr>totalMinutes := totalMinutes this + minutes\<rparr>"

definition setForwardTo :: "TimeSpan \<Rightarrow> TimeSpan \<Rightarrow> TimeSpan" where
  "setForwardTo this timeOfDay =
     (let theirMinutesToday = getMinutesOfDay timeOfDay;
          myMinutesToday = getMinutesOfDay this;
          difference = theirMinutesToday - myMinutesToday;
          difference = (if difference < 0 then difference + MINUTES_PER_DAY else difference)
      in this\<lparr>totalMinutes := totalMinutes this + difference\<rparr>)"

definition setTotalMinutes :: "TimeSpan \<Rightarrow> int \<Rightarrow> TimeSpan" where
  "setTotalMinutes this minutes = this\<lparr>totalMinutes := minutes\<rparr>"

section \<open>Errors, tones and strings\<close>

text \<open>
  A thrown \<^verbatim>\<open>Error\<close> is a value: \<open>ParseError\<close> for the two errors of the parsers,
  \<open>PolicyViolation\<close> for the error of the hook on \<^verbatim>\<open>Game_Switches.prototype.setValue\<close>,
  and \<open>TypeError\<close> for the error that JavaScript raises when a property of
  \<^verbatim>\<open>undefined\<close> is read.  A tone is the array \<^verbatim>\<open>[r, g, b, gray]\<close>.  A JavaScript value
  that may be \<^verbatim>\<open>undefined\<close> or \<^verbatim>\<open>null\<close> is an \<open>option\<close>.

  A \<open>char\<close> stands for a UTF-16 code unit below 256.  On these,
  \<^verbatim>\<open>toLowerCase\<close> maps \<^verbatim>\<open>A\<close> to \<^verbatim>\<open>Z\<close> and the capital letters of the range 192 to 222
  (all but the multiplication sign, 215) to the code unit 32 above and leaves the
  others.  \<^verbatim>\<open>toUpperCase\<close> is modelled on the ASCII letters; the source applies it to
  the AM/PM marker only, which is one of \<^verbatim>\<open>a\<close>, \<^verbatim>\<open>p\<close>, \<^verbatim>\<open>A\<close>, \<^verbatim>\<open>P\<close>.
\<close>

datatype error = ParseError | PolicyViolation | TypeError

type_synonym Tone = "int list"

definition toLowerCase_char :: "char \<Rightarrow> char" where
  "toLowerCase_char c =
     (let n = (of_char c :: nat)
      in if (65 \<le> n \<and> n \<le> 90) \<or> (192 \<le> n \<and> n \<le> 214) \<or> (216 \<le> n \<and> n \<le> 222)
         then char_of (n + 32) else c)"

definition toLowerCase :: "string \<Rightarrow> string" where
  "toLowerCase s = map toLowerCase_char s"

definition toUpperCase_char :: "char \<Rightarrow> char" where
  "toUpperCase_char c =
     (let n = (of_char c :: nat) in if 97 \<le> n \<and> n \<le> 122 then char_of (n - 32) else c)"

definition toUpperCase :: "string \<Rightarrow> string" where
  "toUpperCase s = map toUpperCase_char s"

section \<open>Regular expressions of the parsers\<close>

text \<open>
  \<^verbatim>\<open>String.prototype.match\<close> with a regular expression without the \<^verbatim>\<open>g\<close> flag
  returns the leftmost match, found by backtracking, with its capture groups, or
  \<^verbatim>\<open>null\<close>.  The two expressions of the parsers use a character or character class,
  sequence, the greedy \<^verbatim>\<open>?\<close>, greedy repetition of a character class
  (\<^verbatim>\<open>+\<close>, \<^verbatim>\<open>{1,2}\<close>, \<^verbatim>\<open>{2}\<close>) and capture groups.  \<open>matchHere\<close> lists every way
  to match at the start of the text, in the order in which backtracking tries them (a
  greedy operator tries the longer alternative first), so the head of the list is the
  match that the engine reports.  The flag \<^verbatim>\<open>i\<close> is written into the classes.
\<close>

datatype regex =
  Chars "char list"
| Seq regex regex
| Opt regex
| Rep nat "nat option" "char list"
| Group nat regex

type_synonym captures = "nat \<rightharpoonup> string"

fun reps :: "nat \<Rightarrow> nat option \<Rightarrow> char list \<Rightarrow> string \<Rightarrow> string list" where
  "reps mn mx cs [] = (if mn = 0 then [[]] else [])"
| "reps mn mx cs (c # s) =
     (if c \<in> set cs \<and> mx \<noteq> Some 0
      then reps (mn - 1) (map_option (\<lambda>k. k - 1) mx) cs s else [])
     @ (if mn = 0 then [c # s] else [])"

fun matchHere :: "regex \<Rightarrow> string \<times> captures \<Rightarrow> (string \<times> captures) list" where
  "matchHere (Chars cs) (s, caps) =
     (case s of [] \<Rightarrow> [] | c # t \<Rightarrow> if c \<in> set cs then [(t, caps)] else [])"
| "matchHere (Seq a b) st = concat (map (matchHere b) (matchHere a st))"
| "matchHere (Opt r) st = matchHere r st @ [st]"
| "matchHere (Rep mn mx cs) (s, caps) = map (\<lambda>t. (t, caps)) (reps mn mx cs s)"
| "matchHere (Group n r) (s, caps) =
     map (\<lambda>(t, caps'). (t, caps'(n \<mapsto> take (length s - length t) s)))
       (matchHere r (s, caps))"

fun search :: "regex \<Rightarrow> string \<Rightarrow> captures option" where
  "search r [] =
     (case matchHere r ([], Map.empty) of [] \<Rightarrow> None | x # _ \<Rightarrow> Some (snd x))"
| "search r (c # s) =
     (case matchHere r (c # s, Map.empty) of [] \<Rightarrow> search r s | x # _ \<Rightarrow> Some (snd x))"

definition capture :: "captures \<Rightarrow> nat \<Rightarrow> string" where
  \<comment> \<open>\<^verbatim>\<open>match[n]\<close> of a group that takes part in every match\<close>
  "capture m n = (case m n of None \<Rightarrow> [] | Some w \<Rightarrow> w)"

definition digit :: "char list" where
  "digit = ''0123456789''"

definition digit_value :: "char \<Rightarrow> int" where
  "digit_value c = int (of_char c) - 48"

definition Number :: "string \<Rightarrow> int" where
  \<comment> \<open>\<^verbatim>\<open>Number(text)\<close> on a text of decimal digits\<close>
  "Number s = foldl (\<lambda>n c. 10 * n + digit_value c) 0 s"

definition parseInt :: "string \<Rightarrow> int" where
  \<comment> \<open>\<^verbatim>\<open>Number.parseInt(text) || 0\<close> on decimal digits with an optional minus sign\<close>
  "parseInt s = (case s of [] \<Rightarrow> 0 | c # ds \<Rightarrow> if c = CHR ''-'' then - Number ds else Number s)"

section \<open>Time and tone parsing\<close>

definition timeOfDay_re :: regex where
  \<comment> \<open>\<^verbatim>\<open>/(\d{1,2}):(\d{2}) ?(?:([ap])m?)?/i\<close>\<close>
  "timeOfDay_re =
     Seq (Group 1 (Rep 1 (Some 2) digit))
    (Seq (Chars '':'')
    (Seq (Group 2 (Rep 2 (Some 2) digit))
    (Seq (Opt (Chars '' ''))
         (Opt (Seq (Group 3 (Chars ''apAP'')) (Opt (Chars ''mM'')))))))"

definition parseTimeOfDay :: "string \<Rightarrow> error + TimeSpan" where
  "parseTimeOfDay timeString =
     (case search timeOfDay_re timeString of
        None \<Rightarrow> Inl ParseError
      | Some m \<Rightarrow>
          (let hours = Number (capture m 1);
               minutes = Number (capture m 2);
               hours =
                 (case m 3 of
                    None \<Rightarrow> hours
                  | Some suffix \<Rightarrow>
                      if ''P'' = toUpperCase suffix
                      then (if 12 \<noteq> hours then hours + 12 else hours)
                      else (if 12 = hours then 0 else hours))
           in Inr (TimeSpan_new 0 hours minutes)))"

definition tone_re :: regex where
  \<comment> \<open>\<^verbatim>\<open>/(-?\d+)[, ]+(-?\d+)[, ]+(-?\d+)[, ]+(\d+)/\<close>\<close>
  "tone_re =
     Seq (Group 1 (Seq (Opt (Chars ''-'')) (Rep 1 None digit)))
    (Seq (Rep 1 None '', '')
    (Seq (Group 2 (Seq (Opt (Chars ''-'')) (Rep 1 None digit)))
    (Seq (Rep 1 None '', '')
    (Seq (Group 3 (Seq (Opt (Chars ''-'')) (Rep 1 None digit)))
    (Seq (Rep 1 None '', '')
         (Group 4 (Rep 1 None digit)))))))"

definition parseTone :: "string \<Rightarrow> error + Tone" where
  "parseTone toneString =
     (case search tone_re toneString of
        None \<Rightarrow> Inl ParseError
      | Some matches \<Rightarrow>
          (let r = parseInt (capture matches 1);
               g = parseInt (capture matches 2);
               b = parseInt (capture matches 3);
               gray = parseInt (capture matches 4)
           in Inr [r, g, b, gray]))"

text \<open>The capture groups that occur in an expression.\<close>

fun groupsOf :: "regex \<Rightarrow> nat set" where
  "groupsOf (Chars cs) = {}"
| "groupsOf (Seq a b) = groupsOf a \<union> groupsOf b"
| "groupsOf (Opt r) = groupsOf r"
| "groupsOf (Rep mn mx cs) = {}"
| "groupsOf (Group n r) = insert n (groupsOf r)"

section \<open>What the patterns describe\<close>

text \<open>
  The texts that a regular expression describes, independently of how the engine
  searches: the reference against which the backtracking matcher is checked.
\<close>

fun lang :: "regex \<Rightarrow> string set" where
  "lang (Chars cs) = {[c] | c. c \<in> set cs}"
| "lang (Seq a b) = {u @ v | u v. u \<in> lang a \<and> v \<in> lang b}"
| "lang (Opt r) = insert [] (lang r)"
| "lang (Rep mn mx cs) =
     {w. set w \<subseteq> set cs \<and> mn \<le> length w \<and> (\<forall>k. mx = Some k \<longrightarrow> length w \<le> k)}"
| "lang (Group n r) = lang r"

definition contains :: "regex \<Rightarrow> string \<Rightarrow> bool" where
  \<comment> \<open>some piece of the text is described by the expression\<close>
  "contains r s \<longleftrightarrow> (\<exists>p w q. s = p @ w @ q \<and> w \<in> lang r)"

text \<open>
  The patterns in the words of the parsers' descriptions: a text has the time pattern
  when somewhere in it one or two digits, a colon and two digits follow one another
  (\<^verbatim>\<open>H:MM\<close> or \<^verbatim>\<open>HH:MM\<close>); it has the tone pattern when somewhere in it four
  integers follow one another, separated by runs of commas and spaces, the first three
  with an optional minus sign and the fourth without sign.
\<close>

definition isDigits :: "string \<Rightarrow> bool" where
  "isDigits w \<longleftrightarrow> set w \<subseteq> set digit"


definition isUnsignedInteger :: "string \<Rightarrow> bool" where
  "isUnsignedInteger w \<longleftrightarrow> w \<noteq> [] \<and> isDigits w"

definition isSignedInteger :: "string \<Rightarrow> bool" where
  "isSignedInteger w \<longleftrightarrow>
     isUnsignedInteger w \<or> (\<exists>d. w = CHR ''-'' # d \<and> isUnsignedInteger d)"

definition isSeparator :: "string \<Rightarrow> bool" where
  "isSeparator w \<longleftrightarrow> w \<noteq> [] \<and> set w \<subseteq> set '', ''"

definition hasTonePattern :: "string \<Rightarrow> bool" where
  "hasTonePattern s \<longleftrightarrow>
     (\<exists>p a s1 b s2 c s3 d q. s = p @ a @ s1 @ b @ s2 @ c @ s3 @ d @ q
        \<and> isSignedInteger a \<and> isSeparator s1 \<and> isSignedInteger b \<and> isSeparator s2
        \<and> isSignedInteger c \<and> isSeparator s3 \<and> isUnsignedInteger d)"

section \<open>The settings object\<close>

text \<open>
  The parameter section of the file parses the plugin's settings and stores them as
  properties of \<^verbatim>\<open>McKathlin.DayNight.Param\<close>.  The record has the properties that the
  section assigns and that matter here, as the section stores them: the two reserved
  switch ids (\<^verbatim>\<open>Number.parseInt\<close> of the setting), the outdoor keyword (trimmed and
  lower-cased), the five times of day (each the TimeSpan that \<^verbatim>\<open>parseTimeOfDay\<close>
  returns), the phase length, the tones and tone phases (from \<^verbatim>\<open>parseTone\<close> and
  \<^verbatim>\<open>parseToneList\<close>), the two derived ends \<^verbatim>\<open>DawnEndTime\<close> and \<^verbatim>\<open>DuskEndTime\<close>
  (numbers: start plus phase length times number of phases), and the preset table
  \<^verbatim>\<open>LightingPresets\<close>, which maps a lower-cased keyword to its tone.  The numeric
  settings are taken as integers.
\<close>

record Param =
  DaytimeSwitchID :: int
  NightSwitchID :: int
  OutdoorLightingKeyword :: string
  NewGameStartTime :: TimeSpan
  DawnStartTime :: TimeSpan
  DayStartTime :: TimeSpan
  DuskStartTime :: TimeSpan
  NightStartTime :: TimeSpan
  MinutesPerTonePhase :: int
  DawnTonePhases :: "Tone list"
  DaylightTone :: Tone
  DuskTonePhases :: "Tone list"
  NightTone :: Tone
  DawnEndTime :: int
  DuskEndTime :: int
  LightingPresets :: "string \<rightharpoonup> Tone"

section \<open>Properties that are read but never assigned\<close>

text \<open>
  The functions below read properties under names that no statement of the file
  assigns; reading such a property yields \<^verbatim>\<open>undefined\<close>.
  \<^item> \<^verbatim>\<open>isDaytime\<close>, \<^verbatim>\<open>getOutsideTone\<close> and \<^verbatim>\<open>reset\<close> read
    \<^verbatim>\<open>Param.DayStartTimeAsMinutes\<close>, \<^verbatim>\<open>Param.NightStartTimeAsMinutes\<close>,
    \<^verbatim>\<open>Param.DawnStartTimeAsMinutes\<close>, \<^verbatim>\<open>Param.DawnEndTimeAsMinutes\<close>,
    \<^verbatim>\<open>Param.DuskStartTimeAsMinutes\<close>, \<^verbatim>\<open>Param.DuskEndTimeAsMinutes\<close> and
    \<^verbatim>\<open>Param.NewGameStartTimeAsMinutes\<close>; the section stores \<^verbatim>\<open>DayStartTime\<close>,
    \<^verbatim>\<open>NightStartTime\<close>, \<^verbatim>\<open>DawnStartTime\<close>, \<^verbatim>\<open>DawnEndTime\<close>, \<^verbatim>\<open>DuskStartTime\<close>,
    \<^verbatim>\<open>DuskEndTime\<close> and \<^verbatim>\<open>NewGameStartTime\<close>.
  \<^item> \<^verbatim>\<open>getToneByKeyword\<close> reads \<^verbatim>\<open>Param.SimpleLightingPresets\<close>, whose entries would
    be objects with a property \<^verbatim>\<open>tone\<close>, and \<^verbatim>\<open>McKathlin.DayNight.DEFAULT_TONE\<close>; the
    section stores \<^verbatim>\<open>Param.LightingPresets\<close>.
  \<^item> \<^verbatim>\<open>updateTime\<close> reads \<^verbatim>\<open>Param.DaytimeSwitch\<close>, \<^verbatim>\<open>Param.NightSwitch\<close>,
    \<^verbatim>\<open>Param.DaysPassedVariable\<close>, \<^verbatim>\<open>Param.CurrentHourVariable\<close> and
    \<^verbatim>\<open>Param.CurrentMinuteVariable\<close>; the section stores \<^verbatim>\<open>DaytimeSwitchID\<close> and
    \<^verbatim>\<open>NightSwitchID\<close>.
  \<^item> The hook on \<^verbatim>\<open>setValue\<close> reads \<^verbatim>\<open>McKathlin.DayNight._switching\<close> and the object
    \<^verbatim>\<open>McKathlin.Param\<close>; \<^verbatim>\<open>changeTimeTo\<close> sets \<^verbatim>\<open>McKathlin.DayNightCycle._switching\<close>,
    and the ids are stored in \<^verbatim>\<open>McKathlin.DayNight.Param\<close>.
\<close>

definition DayStartTimeAsMinutes :: "Param \<Rightarrow> int option" where
  "DayStartTimeAsMinutes P = None"

definition NightStartTimeAsMinutes :: "Param \<Rightarrow> int option" where
  "NightStartTimeAsMinutes P = None"

definition DawnStartTimeAsMinutes :: "Param \<Rightarrow> int option" where
  "DawnStartTimeAsMinutes P = None"

definition DawnEndTimeAsMinutes :: "Param \<Rightarrow> int option" where
  "DawnEndTimeAsMinutes P = None"

definition DuskStartTimeAsMinutes :: "Param \<Rightarrow> int option" where
  "DuskStartTimeAsMinutes P = None"

definition DuskEndTimeAsMinutes :: "Param \<Rightarrow> int option" where
  "DuskEndTimeAsMinutes P = None"

definition NewGameStartTimeAsMinutes :: "Param \<Rightarrow> int option" where
  "NewGameStartTimeAsMinutes P = None"

record LightingPreset =
  tone :: "Tone option"

definition SimpleLightingPresets :: "Param \<Rightarrow> (string \<rightharpoonup> LightingPreset) option" where
  "SimpleLightingPresets P = None"

definition DEFAULT_TONE :: "Tone option" where
  "DEFAULT_TONE = None"

definition DaytimeSwitch :: "Param \<Rightarrow> int option" where
  "DaytimeSwitch P = None"

definition NightSwitch :: "Param \<Rightarrow> int option" where
  "NightSwitch P = None"

definition DaysPassedVariable :: "Param \<Rightarrow> int option" where
  "DaysPassedVariable P = None"

definition CurrentHourVariable :: "Param \<Rightarrow> int option" where
  "CurrentHourVariable P = None"

definition CurrentMinuteVariable :: "Param \<Rightarrow> int option" where
  "CurrentMinuteVariable P = None"

definition DayNight_switching :: "bool option" where
  \<comment> \<open>\<^verbatim>\<open>McKathlin.DayNight._switching\<close>\<close>
  "DayNight_switching = None"

definition McKathlin_Param :: "Param option" where
  \<comment> \<open>\<^verbatim>\<open>McKathlin.Param\<close>\<close>
  "McKathlin_Param = None"

section \<open>Operators on values that may be undefined\<close>

text \<open>
  A comparison with \<^verbatim>\<open>undefined\<close> converts it to NaN and is false; arithmetic with it
  gives NaN, which is no array index; \<^verbatim>\<open>x || 0\<close> is 0 for \<^verbatim>\<open>undefined\<close>;
  \<^verbatim>\<open>!x\<close> is true for \<^verbatim>\<open>undefined\<close>.  \<^verbatim>\<open>Math.floor(a / b)\<close> with \<open>b = 0\<close> is an
  infinity or NaN, no array index either.  Indexing an array outside its range yields
  \<^verbatim>\<open>undefined\<close> and does not throw.
\<close>

definition js_lt :: "int \<Rightarrow> int option \<Rightarrow> bool" where
  "js_lt a b = (case b of None \<Rightarrow> False | Some n \<Rightarrow> a < n)"

definition js_ge :: "int \<Rightarrow> int option \<Rightarrow> bool" where
  "js_ge a b = (case b of None \<Rightarrow> False | Some n \<Rightarrow> a \<ge> n)"

definition js_positive :: "int option \<Rightarrow> bool" where
  \<comment> \<open>\<^verbatim>\<open>x > 0\<close>\<close>
  "js_positive x = (case x of None \<Rightarrow> False | Some n \<Rightarrow> n > 0)"

definition js_minus :: "int \<Rightarrow> int option \<Rightarrow> int option" where
  "js_minus a b = (case b of None \<Rightarrow> None | Some n \<Rightarrow> Some (a - n))"

definition js_floor_div :: "int option \<Rightarrow> int \<Rightarrow> int option" where
  "js_floor_div a b =
     (case a of None \<Rightarrow> None | Some x \<Rightarrow> if b = 0 then None else Some (x div b))"

definition js_index :: "'a list \<Rightarrow> int option \<Rightarrow> 'a option" where
  "js_index xs i =
     (case i of
        None \<Rightarrow> None
      | Some k \<Rightarrow> if 0 \<le> k \<and> k < int (length xs) then Some (xs ! nat k) else None)"

definition or_zero :: "int option \<Rightarrow> int" where
  \<comment> \<open>\<^verbatim>\<open>x || 0\<close>\<close>
  "or_zero x = (case x of None \<Rightarrow> 0 | Some n \<Rightarrow> n)"

definition truthy :: "bool option \<Rightarrow> bool" where
  "truthy x = (case x of None \<Rightarrow> False | Some b \<Rightarrow> b)"

section \<open>Day and night\<close>

definition isDaytime :: "Param \<Rightarrow> TimeSpan \<Rightarrow> bool" where
  "isDaytime P this =
     (let timeOfDay = getMinutesOfDay this
      in js_ge timeOfDay (DayStartTimeAsMinutes P) \<and> js_lt timeOfDay (NightStartTimeAsMinutes P))"

definition isNight :: "Param \<Rightarrow> TimeSpan \<Rightarrow> bool" where
  "isNight P this = (\<not> isDaytime P this)"

section \<open>Tone resolution\<close>

definition getOutsideTone :: "Param \<Rightarrow> TimeSpan \<Rightarrow> Tone option" where
  "getOutsideTone P this =
     (let time = getMinutesOfDay this
      in if js_lt time (DawnStartTimeAsMinutes P) then Some (NightTone P)
         else if js_lt time (DawnEndTimeAsMinutes P) then
           (let phase = js_floor_div (js_minus time (DawnStartTimeAsMinutes P))
                          (MinutesPerTonePhase P)
            in js_index (DawnTonePhases P) phase)
         else if js_lt time (DuskStartTimeAsMinutes P) then Some (DaylightTone P)
         else if js_lt time (DuskEndTimeAsMinutes P) then
           (let phase = js_floor_div (js_minus time (DuskStartTimeAsMinutes P))
                          (MinutesPerTonePhase P)
            in js_index (DuskTonePhases P) phase)
         else Some (NightTone P))"

text \<open>
  \<^verbatim>\<open>getToneByKeyword\<close>: the keyword is a string or unset, and \<^verbatim>\<open>if (keyword)\<close> is false
  for both unset and \<^verbatim>\<open>""\<close>.  Indexing \<^verbatim>\<open>Param.SimpleLightingPresets\<close> throws a
  TypeError when that property is \<^verbatim>\<open>undefined\<close>.  The result is a tone or
  \<^verbatim>\<open>undefined\<close>.
\<close>

definition getToneByKeyword :: "Param \<Rightarrow> TimeSpan \<Rightarrow> string option \<Rightarrow> error + Tone option" where
  "getToneByKeyword P this keyword =
     (case (case keyword of
              None \<Rightarrow> Inr None
            | Some k \<Rightarrow>
                if k = [] then Inr None
                else (let k = toLowerCase k
                      in if k = OutdoorLightingKeyword P then Inr (getOutsideTone P this)
                         else (case SimpleLightingPresets P of
                                 None \<Rightarrow> Inl TypeError
                               | Some table \<Rightarrow>
                                   Inr (case table k of
                                          None \<Rightarrow> None
                                        | Some preset \<Rightarrow> tone preset)))) of
        Inl e \<Rightarrow> Inl e
      | Inr None \<Rightarrow> Inr DEFAULT_TONE
      | Inr (Some t) \<Rightarrow> Inr (Some t))"

section \<open>The clock controller and the switch protection\<close>

text \<open>
  \<^verbatim>\<open>McKathlin.DayNightCycle\<close> is a TimeSpan whose \<^verbatim>\<open>totalMinutes\<close> property is
  redefined: reading it returns \<^verbatim>\<open>$gameSystem.totalMinutes\<close>, assigning it calls
  \<^verbatim>\<open>changeTimeTo\<close>.  The state that these functions touch is a record: the stored
  minute count, the host's switches and variables, the flag
  \<^verbatim>\<open>McKathlin.DayNightCycle._switching\<close>, and the number of notifications sent.

  The host engine's own \<^verbatim>\<open>setValue\<close> of switches and of variables (the first saved by
  the plugin before it installs its hook) and \<^verbatim>\<open>$gameMap.onTimeChanged\<close> are not part
  of the file.  The host stores a value under a positive id and ignores any other id,
  \<^verbatim>\<open>undefined\<close> included (the upper end of the host's tables is not modelled); the
  notification is counted.

  A thrown error leaves behind the state as it was when the error was thrown: a function
  of the controller returns either the error with that state, or the new state.
\<close>

record Game =
  gameSystem_totalMinutes :: int
  gameSwitches :: "int \<Rightarrow> bool"
  gameVariables :: "int \<Rightarrow> int"
  DayNightCycle_switching :: bool
  timeChangedCount :: nat

type_synonym outcome = "(error \<times> Game) + Game"

definition now :: "Game \<Rightarrow> TimeSpan" where
  \<comment> \<open>the DayNightCycle object read as a TimeSpan, through its getter\<close>
  "now g = \<lparr>totalMinutes = gameSystem_totalMinutes g\<rparr>"

definition Game_Switches_setValue_original :: "Game \<Rightarrow> int option \<Rightarrow> bool \<Rightarrow> Game" where
  "Game_Switches_setValue_original g switchId v =
     (case switchId of
        None \<Rightarrow> g
      | Some i \<Rightarrow> if i > 0 then g\<lparr>gameSwitches := (gameSwitches g)(i := v)\<rparr> else g)"

definition Game_Variables_setValue :: "Game \<Rightarrow> int option \<Rightarrow> int \<Rightarrow> Game" where
  "Game_Variables_setValue g variableId v =
     (case variableId of
        None \<Rightarrow> g
      | Some i \<Rightarrow> if i > 0 then g\<lparr>gameVariables := (gameVariables g)(i := v)\<rparr> else g)"

definition onTimeChanged :: "Game \<Rightarrow> Game" where
  "onTimeChanged g = g\<lparr>timeChangedCount := Suc (timeChangedCount g)\<rparr>"

definition Game_Switches_setValue :: "Game \<Rightarrow> int option \<Rightarrow> bool \<Rightarrow> outcome" where
  "Game_Switches_setValue g switchId v =
     (if js_positive switchId \<and> \<not> truthy DayNight_switching
      then (case McKathlin_Param of
              None \<Rightarrow> Inl (TypeError, g)
            | Some ids \<Rightarrow>
                if switchId = Some (DaytimeSwitchID ids) \<or> switchId = Some (NightSwitchID ids)
                then Inl (PolicyViolation, g)
                else Inr (Game_Switches_setValue_original g switchId v))
      else Inr (Game_Switches_setValue_original g switchId v))"

definition updateTime :: "Param \<Rightarrow> Game \<Rightarrow> outcome" where
  "updateTime P g =
     (let isDay = isDaytime P (now g)
      in case Game_Switches_setValue g (DaytimeSwitch P) isDay of
           Inl e \<Rightarrow> Inl e
         | Inr g1 \<Rightarrow>
             (case Game_Switches_setValue g1 (NightSwitch P) (\<not> isDay) of
                Inl e \<Rightarrow> Inl e
              | Inr g2 \<Rightarrow>
                  (let g3 = Game_Variables_setValue g2 (DaysPassedVariable P) (getDays (now g2));
                       g4 = Game_Variables_setValue g3 (CurrentHourVariable P) (getHours (now g3));
                       g5 = Game_Variables_setValue g4 (CurrentMinuteVariable P)
                              (getMinutes (now g4))
                   in Inr g5)))"

definition changeTimeTo :: "Param \<Rightarrow> Game \<Rightarrow> int \<Rightarrow> outcome" where
  "changeTimeTo P g minutes =
     (let g1 = g\<lparr>DayNightCycle_switching := True\<rparr>;
          g2 = g1\<lparr>gameSystem_totalMinutes := minutes\<rparr>
      in case updateTime P g2 of
           Inl e \<Rightarrow> Inl e
         | Inr g3 \<Rightarrow> Inr (onTimeChanged (g3\<lparr>DayNightCycle_switching := False\<rparr>)))"

text \<open>
  The TimeSpan methods run on the DayNightCycle object with the redefined property:
  the new minute count that the method computes from the current one is assigned
  through \<^verbatim>\<open>changeTimeTo\<close>.  In \<^verbatim>\<open>reset\<close> the constructor receives
  \<^verbatim>\<open>Param.NewGameStartTimeAsMinutes\<close> as its minutes and applies \<^verbatim>\<open>minutes || 0\<close>.
\<close>

definition DayNightCycle_setTotalMinutes :: "Param \<Rightarrow> Game \<Rightarrow> int \<Rightarrow> outcome" where
  "DayNightCycle_setTotalMinutes P g minutes =
     changeTimeTo P g (totalMinutes (setTotalMinutes (now g) minutes))"

definition DayNightCycle_addMinutes :: "Param \<Rightarrow> Game \<Rightarrow> int \<Rightarrow> outcome" where
  "DayNightCycle_addMinutes P g minutes =
     changeTimeTo P g (totalMinutes (addMinutes (now g) minutes))"

definition DayNightCycle_setForwardTo :: "Param \<Rightarrow> Game \<Rightarrow> TimeSpan \<Rightarrow> outcome" where
  "DayNightCycle_setForwardTo P g timeOfDay =
     changeTimeTo P g (totalMinutes (setForwardTo (now g) timeOfDay))"

definition reset :: "Param \<Rightarrow> Game \<Rightarrow> outcome" where
  "reset P g =
     (case DayNightCycle_setTotalMinutes P g 0 of
        Inl e \<Rightarrow> Inl e
      | Inr g1 \<Rightarrow>
          DayNightCycle_setForwardTo P g1
            (TimeSpan_new 0 0 (or_zero (NewGameStartTimeAsMinutes P))))"

section \<open>The documented default settings\<close>

text \<open>
  What the parameter section stores for the settings that the plugin header documents
  as defaults (\<^verbatim>\<open>@default\<close>): no daytime or night switch (id 0); outdoor keyword
  \<^verbatim>\<open>Outside\<close>, lower-cased; a new game at 8:00 AM, dawn and day at 6:00 AM, dusk at
  6:00 PM, night at 8:00 PM; 30 minutes per tone phase; four dawn and four dusk phases,
  so that \<^verbatim>\<open>DawnEndTime\<close> is 360 + 30 * 4 and \<^verbatim>\<open>DuskEndTime\<close> is 1080 + 30 * 4; and
  the eight named presets.  \<open>switchesParam\<close> is the same with switch 1 set as the daytime
  switch and switch 2 as the night switch.
\<close>

definition defaultPresets :: "string \<rightharpoonup> Tone" where
  "defaultPresets =
     [''bright'' \<mapsto> [0, 0, 0, 0],
      ''fire'' \<mapsto> [-16, -70, -100, 100],
      ''blue'' \<mapsto> [-68, -68, 0, 68],
      ''dark'' \<mapsto> [-68, -68, -68, 0],
      ''verydark'' \<mapsto> [-100, -100, -100, 100],
      ''black'' \<mapsto> [-100, -100, -100, 100],
      ''gold'' \<mapsto> [34, 0, -90, 100],
      ''swamp'' \<mapsto> [-34, 0, -68, 100]]"

definition defaultParam :: Param where
  "defaultParam =
     \<lparr>DaytimeSwitchID = 0,
      NightSwitchID = 0,
      OutdoorLightingKeyword = ''outside'',
      NewGameStartTime = TimeSpan_new 0 8 0,
      DawnStartTime = TimeSpan_new 0 6 0,
      DayStartTime = TimeSpan_new 0 6 0,
      DuskStartTime = TimeSpan_new 0 18 0,
      NightStartTime = TimeSpan_new 0 20 0,
      MinutesPerTonePhase = 30,
      DawnTonePhases = [[-68, -68, -14, 41], [-68, -68, -27, 14], [-54, -54, -27, 0],
                        [-27, -27, -14, 0]],
      DaylightTone = [0, 0, 0, 0],
      DuskTonePhases = [[27, -14, -14, 0], [54, -27, -27, 0], [41, -41, -27, 14],
                        [-14, -54, -14, 41]],
      NightTone = [-68, -68, 0, 68],
      DawnEndTime = 360 + 30 * 4,
      DuskEndTime = 1080 + 30 * 4,
      LightingPresets = defaultPresets\<rparr>"

definition switchesParam :: Param where
  "switchesParam = defaultParam\<lparr>DaytimeSwitchID := 1, NightSwitchID := 2\<rparr>"

definition newGame :: Game where
  \<comment> \<open>the state of a new game: minute 0, every switch off, every variable 0\<close>
  "newGame =
     \<lparr>gameSystem_totalMinutes = 0,
      gameSwitches = (\<lambda>_. False),
      gameVariables = (\<lambda>_. 0),
      DayNightCycle_switching = False,
      timeChangedCount = 0\<rparr>"

definition afternoonGame :: Game where
  \<comment> \<open>a game on day 2 at 16:40, with the night switch of \<open>switchesParam\<close> off\<close>
  "afternoonGame = newGame\<lparr>gameSystem_totalMinutes := 2 * 1440 + 1000\<rparr>"

section \<open>Properties of the TimeSpan value\<close>

lemma js_rem_nonneg: "0 \<le> a \<Longrightarrow> 0 < b \<Longrightarrow> js_rem a b = a mod b"
  by (cases "a = 0") (simp_all add: js_rem_def)

lemma MINUTES_PER_DAY_eq: "MINUTES_PER_DAY = 1440"
  by (simp add: MINUTES_PER_DAY_def MINUTES_PER_HOUR_def HOURS_PER_DAY_def)

lemma getMinutesOfDay_nonneg:
  "0 \<le> totalMinutes t \<Longrightarrow> getMinutesOfDay t = totalMinutes t mod 1440"
  by (simp add: getMinutesOfDay_def MINUTES_PER_DAY_eq js_rem_nonneg)

text \<open>
  C5.  For a TimeSpan constructed from a minute count \<open>m \<ge> 0\<close>, the derived fields
  decompose the count: hours and minutes rebuild the minute of the day, and days and
  minute of the day rebuild the total.
\<close>

theorem timespan_decomposition:
  assumes "0 \<le> m"
  shows "getHours (TimeSpan_new 0 0 m) * 60 + getMinutes (TimeSpan_new 0 0 m)
           = getMinutesOfDay (TimeSpan_new 0 0 m)
       \<and> getDays (TimeSpan_new 0 0 m) * 1440 + getMinutesOfDay (TimeSpan_new 0 0 m)
           = getTotalMinutes (TimeSpan_new 0 0 m)"
proof -
  have q: "0 \<le> m div 60" using assms by (simp add: pos_imp_zdiv_nonneg_iff)
  have h: "getHours (TimeSpan_new 0 0 m) = (m div 60) mod 24"
    using q by (simp add: getHours_def TimeSpan_new_def MINUTES_PER_HOUR_def
        HOURS_PER_DAY_def js_rem_nonneg)
  have mi: "getMinutes (TimeSpan_new 0 0 m) = m mod 60"
    using assms by (simp add: getMinutes_def TimeSpan_new_def MINUTES_PER_HOUR_def js_rem_nonneg)
  have md: "getMinutesOfDay (TimeSpan_new 0 0 m) = m mod 1440"
    using assms by (simp add: getMinutesOfDay_nonneg TimeSpan_new_def)
  have d: "getDays (TimeSpan_new 0 0 m) = m div 1440"
    by (simp add: getDays_def TimeSpan_new_def MINUTES_PER_DAY_eq)
  have t: "getTotalMinutes (TimeSpan_new 0 0 m) = m"
    by (simp add: getTotalMinutes_def TimeSpan_new_def)
  have "m mod 1440 = m mod (60 * 24)" by simp
  also have "\<dots> = 60 * (m div 60 mod 24) + m mod 60"
    by (rule zmod_zmult2_eq) simp
  finally have "(m div 60) mod 24 * 60 + m mod 60 = m mod 1440" by simp
  moreover have "m div 1440 * 1440 + m mod 1440 = m"
    by simp
  ultimately show ?thesis
    by (simp only: h mi md d t)
qed

theorem timespan_decomposition_witness:
  "getHours (TimeSpan_new 0 0 1575) * 60 + getMinutes (TimeSpan_new 0 0 1575) = 135
   \<and> getDays (TimeSpan_new 0 0 1575) * 1440 + 135 = 1575"
proof -
  have h: "(0::int) \<le> 1575" by simp
  have "getMinutesOfDay (TimeSpan_new 0 0 1575) = 135"
    by (simp add: getMinutesOfDay_nonneg TimeSpan_new_def)
  moreover have "getTotalMinutes (TimeSpan_new 0 0 1575) = 1575"
    by (simp add: getTotalMinutes_def TimeSpan_new_def)
  ultimately show ?thesis
    using timespan_decomposition [OF h] by simp
qed


lemma setForwardTo_total:
  assumes "0 \<le> totalMinutes this" "0 \<le> totalMinutes timeOfDay"
  shows "totalMinutes (setForwardTo this timeOfDay)
           = totalMinutes this
             + (totalMinutes timeOfDay mod 1440 - totalMinutes this mod 1440) mod 1440"
proof -
  let ?a = "totalMinutes this mod 1440" and ?b = "totalMinutes timeOfDay mod 1440"
  have ra: "0 \<le> ?a" "?a < 1440" and rb: "0 \<le> ?b" "?b < 1440" by simp_all
  have neg: "?b - ?a < 0 \<Longrightarrow> (?b - ?a) mod 1440 = ?b - ?a + 1440"
  proof -
    assume n: "?b - ?a < 0"
    have "(?b - ?a) mod 1440 = (?b - ?a + 1440) mod 1440" by simp
    also have "\<dots> = ?b - ?a + 1440"
      using n ra rb by (intro mod_pos_pos_trivial) linarith+
    finally show ?thesis .
  qed
  have pos: "\<not> ?b - ?a < 0 \<Longrightarrow> (?b - ?a) mod 1440 = ?b - ?a"
    using ra rb by (intro mod_pos_pos_trivial) linarith+
  show ?thesis
    using assms neg pos
    by (simp add: setForwardTo_def getMinutesOfDay_nonneg MINUTES_PER_DAY_eq Let_def)
qed

lemma setForwardTo_forward:
  assumes "0 \<le> totalMinutes this" and "0 \<le> totalMinutes timeOfDay"
  shows "(\<exists>d. totalMinutes (setForwardTo this timeOfDay) = totalMinutes this + d
            \<and> 0 \<le> d \<and> d < 1440
            \<and> (\<forall>d'. 0 \<le> d'
                      \<and> getMinutesOfDay (addMinutes this d') = getMinutesOfDay timeOfDay
                      \<longrightarrow> d \<le> d'))
       \<and> getMinutesOfDay (setForwardTo this timeOfDay) = getMinutesOfDay timeOfDay
       \<and> totalMinutes this \<le> totalMinutes (setForwardTo this timeOfDay)"
proof -
  let ?t = "totalMinutes this" and ?u = "totalMinutes timeOfDay"
  define d where "d = (?u mod 1440 - ?t mod 1440) mod 1440"
  have tot: "totalMinutes (setForwardTo this timeOfDay) = ?t + d"
    unfolding d_def using assms by (rule setForwardTo_total)
  have d0: "0 \<le> d" and d1: "d < 1440" by (simp_all add: d_def)
  have land: "(?t + d) mod 1440 = ?u mod 1440"
  proof -
    have "(?t + d) mod 1440 = (?t mod 1440 + (?u mod 1440 - ?t mod 1440)) mod 1440"
      unfolding d_def by (simp add: mod_add_eq mod_simps)
    then show ?thesis by simp
  qed
  have nn: "0 \<le> totalMinutes (setForwardTo this timeOfDay)"
    using tot assms(1) d0 by simp
  have eq: "getMinutesOfDay (setForwardTo this timeOfDay) = getMinutesOfDay timeOfDay"
    using land tot
    by (simp add: getMinutesOfDay_nonneg [OF nn] getMinutesOfDay_nonneg [OF assms(2)])
  have least: "d \<le> d'"
    if h: "0 \<le> d'" "getMinutesOfDay (addMinutes this d') = getMinutesOfDay timeOfDay" for d'
  proof -
    have "0 \<le> totalMinutes (addMinutes this d')"
      using assms(1) h(1) by (simp add: addMinutes_def)
    then have "(?t + d') mod 1440 = ?u mod 1440"
      using h(2) by (simp add: getMinutesOfDay_nonneg assms(2) addMinutes_def)
    then have "(?t + d') mod 1440 = (?t + d) mod 1440"
      using land by simp
    then have "d' mod 1440 = d mod 1440"
      by (metis add_diff_cancel_left' mod_diff_left_eq)
    then have "d' mod 1440 = d"
      using d0 d1 by simp
    moreover have "d' mod 1440 \<le> d'"
      using h(1) by (simp add: zmod_le_nonneg_dividend)
    ultimately show ?thesis by simp
  qed
  show ?thesis
    using tot d0 d1 least eq by auto
qed

lemmas timespan_eval =
  setForwardTo_def TimeSpan_new_def getMinutesOfDay_def getDays_def getHours_def
  getMinutes_def getTotalMinutes_def js_rem_def MINUTES_PER_DAY_eq MINUTES_PER_HOUR_def
  HOURS_PER_DAY_def Let_def

text \<open>
  C3.  From an instant with a non-negative minute count, \<open>setForwardTo\<close> with a target
  time of day (a TimeSpan with a non-negative minute count, as \<open>parseTimeOfDay\<close>
  builds) adds a delta \<open>d\<close> with \<open>0 \<le> d < 1440\<close>, the least non-negative delta after
  which the minute of the day is the target's; the instant never moves backward.  From
  day 0 at 22:00, target 8:00 gives day 1 at 8:00 and target 23:00 gives day 0 at 23:00.
\<close>

theorem setForwardTo_minimal_forward:
  "(0 \<le> totalMinutes this \<and> 0 \<le> totalMinutes timeOfDay \<longrightarrow>
      (\<exists>d. totalMinutes (setForwardTo this timeOfDay) = totalMinutes this + d
            \<and> 0 \<le> d \<and> d < 1440
            \<and> (\<forall>d'. 0 \<le> d'
                      \<and> getMinutesOfDay (addMinutes this d') = getMinutesOfDay timeOfDay
                      \<longrightarrow> d \<le> d'))
       \<and> getMinutesOfDay (setForwardTo this timeOfDay) = getMinutesOfDay timeOfDay
       \<and> totalMinutes this \<le> totalMinutes (setForwardTo this timeOfDay))
   \<and> setForwardTo (TimeSpan_new 0 22 0) (TimeSpan_new 0 8 0) = TimeSpan_new 1 8 0
   \<and> setForwardTo (TimeSpan_new 0 22 0) (TimeSpan_new 0 23 0) = TimeSpan_new 0 23 0"
proof (intro conjI impI)
  assume "0 \<le> totalMinutes this \<and> 0 \<le> totalMinutes timeOfDay"
  then have a: "0 \<le> totalMinutes this" and b: "0 \<le> totalMinutes timeOfDay"
    by simp_all
  from setForwardTo_forward [OF a b]
  show "\<exists>d. totalMinutes (setForwardTo this timeOfDay) = totalMinutes this + d
            \<and> 0 \<le> d \<and> d < 1440
            \<and> (\<forall>d'. 0 \<le> d'
                      \<and> getMinutesOfDay (addMinutes this d') = getMinutesOfDay timeOfDay
                      \<longrightarrow> d \<le> d')"
    and "getMinutesOfDay (setForwardTo this timeOfDay) = getMinutesOfDay timeOfDay"
    and "totalMinutes this \<le> totalMinutes (setForwardTo this timeOfDay)"
    by simp_all
next
  show "setForwardTo (TimeSpan_new 0 22 0) (TimeSpan_new 0 8 0) = TimeSpan_new 1 8 0"
    by (simp add: timespan_eval)
next
  show "setForwardTo (TimeSpan_new 0 22 0) (TimeSpan_new 0 23 0) = TimeSpan_new 0 23 0"
    by (simp add: timespan_eval)
qed

theorem setForwardTo_minimal_forward_witness:
  "0 \<le> totalMinutes (TimeSpan_new 0 22 0) \<and> 0 \<le> totalMinutes (TimeSpan_new 0 8 0)
   \<and> getMinutesOfDay (setForwardTo (TimeSpan_new 0 22 0) (TimeSpan_new 0 8 0)) = 480
   \<and> getDays (setForwardTo (TimeSpan_new 0 22 0) (TimeSpan_new 0 8 0)) = 1
   \<and> totalMinutes (TimeSpan_new 0 22 0)
       \<le> totalMinutes (setForwardTo (TimeSpan_new 0 22 0) (TimeSpan_new 0 8 0))"
proof -
  have h: "0 \<le> totalMinutes (TimeSpan_new 0 22 0) \<and> 0 \<le> totalMinutes (TimeSpan_new 0 8 0)"
    by (simp add: TimeSpan_new_def MINUTES_PER_HOUR_def)
  have e: "setForwardTo (TimeSpan_new 0 22 0) (TimeSpan_new 0 8 0) = TimeSpan_new 1 8 0"
    using setForwardTo_minimal_forward [of "TimeSpan_new 0 22 0" "TimeSpan_new 0 8 0"]
    by simp
  have "totalMinutes (TimeSpan_new 0 22 0)
          \<le> totalMinutes (setForwardTo (TimeSpan_new 0 22 0) (TimeSpan_new 0 8 0))"
    using h setForwardTo_minimal_forward [of "TimeSpan_new 0 22 0" "TimeSpan_new 0 8 0"]
    by blast
  moreover have "getMinutesOfDay (TimeSpan_new 1 8 0) = 480" "getDays (TimeSpan_new 1 8 0) = 1"
    by (simp_all add: timespan_eval)
  ultimately show ?thesis
    using h e by simp
qed
section \<open>The functions on the settings that the file stores\<close>

text \<open>
  The default record holds what the parsers return for the header's default texts.
\<close>

lemma defaultParam_parsed:
  "parseTimeOfDay ''8:00 AM'' = Inr (NewGameStartTime defaultParam)"
  "parseTimeOfDay ''6:00 AM'' = Inr (DawnStartTime defaultParam)"
  "parseTimeOfDay ''6:00 AM'' = Inr (DayStartTime defaultParam)"
  "parseTimeOfDay ''6:00 PM'' = Inr (DuskStartTime defaultParam)"
  "parseTimeOfDay ''8:00 PM'' = Inr (NightStartTime defaultParam)"
  "parseTone ''(0, 0, 0, 0)'' = Inr (DaylightTone defaultParam)"
  "parseTone ''(-68, -68, 0, 68)'' = Inr (NightTone defaultParam)"
  by code_simp+

lemma defaultParam_phases_parsed:
  "map parseTone [''(-68, -68, -14, 41)'', ''(-68, -68, -27, 14)'', ''(-54, -54, -27, 0)'',
                  ''(-27, -27, -14, 0)'']
     = map Inr (DawnTonePhases defaultParam)"
  "map parseTone [''(27, -14, -14, 0)'', ''(54, -27, -27, 0)'', ''(41, -41, -27, 14)'',
                  ''(-14, -54, -14, 41)'']
     = map Inr (DuskTonePhases defaultParam)"
  by code_simp+

lemma defaultParam_presets_parsed:
  "map_option Inr (LightingPresets defaultParam (toLowerCase ''Bright''))
     = Some (parseTone ''(0, 0, 0, 0)'')"
  "map_option Inr (LightingPresets defaultParam (toLowerCase ''Fire''))
     = Some (parseTone ''(-16, -70, -100, 100)'')"
  "map_option Inr (LightingPresets defaultParam (toLowerCase ''Blue''))
     = Some (parseTone ''(-68, -68, 0, 68)'')"
  "map_option Inr (LightingPresets defaultParam (toLowerCase ''Dark''))
     = Some (parseTone ''(-68, -68, -68, 0)'')"
  "map_option Inr (LightingPresets defaultParam (toLowerCase ''VeryDark''))
     = Some (parseTone ''(-100, -100, -100, 100)'')"
  "map_option Inr (LightingPresets defaultParam (toLowerCase ''Black''))
     = Some (parseTone ''(-100, -100, -100, 100)'')"
  "map_option Inr (LightingPresets defaultParam (toLowerCase ''Gold''))
     = Some (parseTone ''(34, 0, -90, 100)'')"
  "map_option Inr (LightingPresets defaultParam (toLowerCase ''Swamp''))
     = Some (parseTone ''(-34, 0, -68, 100)'')"
  "toLowerCase ''Outside'' = OutdoorLightingKeyword defaultParam"
  by code_simp+

lemma defaultParam_ends:
  "DawnEndTime defaultParam
     = totalMinutes (DawnStartTime defaultParam)
       + MinutesPerTonePhase defaultParam * int (length (DawnTonePhases defaultParam))"
  "DuskEndTime defaultParam
     = totalMinutes (DuskStartTime defaultParam)
       + MinutesPerTonePhase defaultParam * int (length (DuskTonePhases defaultParam))"
  by (simp_all add: defaultParam_def TimeSpan_new_def MINUTES_PER_HOUR_def)

text \<open>
  Every comparison of \<open>isDaytime\<close> and of \<open>getOutsideTone\<close> is with a property that is
  never assigned, hence false.
\<close>

lemma isDaytime_never: "\<not> isDaytime P this"
  by (simp add: isDaytime_def js_ge_def DayStartTimeAsMinutes_def Let_def)

lemma getOutsideTone_night: "getOutsideTone P this = Some (NightTone P)"
  by (simp add: getOutsideTone_def js_lt_def Let_def DawnStartTimeAsMinutes_def
      DawnEndTimeAsMinutes_def DuskStartTimeAsMinutes_def DuskEndTimeAsMinutes_def)

text \<open>
  C6.  The claim: \<open>isDaytime\<close> is true exactly when the minute of the day lies between
  the configured day start (inclusive) and night start (exclusive); with 6:00 and 20:00
  it is true at 6:00 and at 19:59.  The code: \<open>isDaytime\<close> compares with
  \<^verbatim>\<open>Param.DayStartTimeAsMinutes\<close> and \<^verbatim>\<open>Param.NightStartTimeAsMinutes\<close>, which are never
  assigned (the settings are stored as \<^verbatim>\<open>DayStartTime\<close> and \<^verbatim>\<open>NightStartTime\<close>).  With
  day start 6:00 and night start 20:00 stored, it is false at 6:00 and at 19:59, and it
  is false for every settings object and every instant.
\<close>

theorem isDaytime_always_false:
  "totalMinutes (DayStartTime defaultParam) = 6 * 60
   \<and> totalMinutes (NightStartTime defaultParam) = 20 * 60
   \<and> getMinutesOfDay (TimeSpan_new 0 6 0) = 6 * 60
   \<and> getMinutesOfDay (TimeSpan_new 0 19 59) = 19 * 60 + 59
   \<and> \<not> isDaytime defaultParam (TimeSpan_new 0 6 0)
   \<and> \<not> isDaytime defaultParam (TimeSpan_new 0 19 59)
   \<and> (\<forall>P this. \<not> isDaytime P this)"
  by (simp add: isDaytime_never defaultParam_def timespan_eval)

text \<open>
  C1.  The claim: the outside tone is the night tone before the dawn start, a dawn phase
  up to the dawn end, the daylight tone up to the dusk start, a dusk phase up to the dusk
  end, and the night tone after it.  The code: \<open>getOutsideTone\<close> compares with
  \<^verbatim>\<open>Param.DawnStartTimeAsMinutes\<close>, \<^verbatim>\<open>Param.DawnEndTimeAsMinutes\<close>,
  \<^verbatim>\<open>Param.DuskStartTimeAsMinutes\<close> and \<^verbatim>\<open>Param.DuskEndTimeAsMinutes\<close>, which are never
  assigned (the settings are stored as \<^verbatim>\<open>DawnStartTime\<close>, \<^verbatim>\<open>DawnEndTime\<close>,
  \<^verbatim>\<open>DuskStartTime\<close>, \<^verbatim>\<open>DuskEndTime\<close>), so every test fails and the last branch is
  taken.  With the default settings (dawn 6:00 to 8:00, dusk 18:00 to 20:00) it returns
  the night tone at 7:10, where the claim gives dawn phase 2, at 12:00, where the claim
  gives the daylight tone, and at 18:00, where the claim gives dusk phase 0; it returns
  the night tone for every settings object and every instant.
\<close>

theorem getOutsideTone_always_night:
  "totalMinutes (DawnStartTime defaultParam) = 360 \<and> DawnEndTime defaultParam = 480
   \<and> totalMinutes (DuskStartTime defaultParam) = 1080 \<and> DuskEndTime defaultParam = 1200
   \<and> MinutesPerTonePhase defaultParam = 30
   \<and> getMinutesOfDay (TimeSpan_new 0 7 10) = 430
   \<and> getMinutesOfDay (TimeSpan_new 0 12 0) = 720
   \<and> getMinutesOfDay (TimeSpan_new 0 18 0) = 1080
   \<and> js_index (DawnTonePhases defaultParam) (Some ((430 - 360) div 30)) = Some [-54, -54, -27, 0]
   \<and> DaylightTone defaultParam = [0, 0, 0, 0]
   \<and> js_index (DuskTonePhases defaultParam) (Some ((1080 - 1080) div 30)) = Some [27, -14, -14, 0]
   \<and> getOutsideTone defaultParam (TimeSpan_new 0 7 10) = Some [-68, -68, 0, 68]
   \<and> getOutsideTone defaultParam (TimeSpan_new 0 12 0) = Some [-68, -68, 0, 68]
   \<and> getOutsideTone defaultParam (TimeSpan_new 0 18 0) = Some [-68, -68, 0, 68]
   \<and> (\<forall>P this. getOutsideTone P this = Some (NightTone P))"
  by (simp add: getOutsideTone_night defaultParam_def timespan_eval js_index_def)

text \<open>
  C4.  The claim: \<open>getToneByKeyword\<close> never fails; an unset or empty keyword gives the
  configured default tone, and so does a keyword that is neither the outdoor keyword nor
  in the preset table.  The code: for a keyword other than the outdoor keyword it
  indexes \<^verbatim>\<open>Param.SimpleLightingPresets\<close>, which is never assigned (the presets are
  stored as \<^verbatim>\<open>Param.LightingPresets\<close>), and throws a TypeError, for the unknown keyword
  \<^verbatim>\<open>Cave\<close> as for the configured preset \<^verbatim>\<open>Dark\<close>; for an unset or empty keyword it
  returns \<^verbatim>\<open>McKathlin.DayNight.DEFAULT_TONE\<close>, which is never assigned, that is
  \<^verbatim>\<open>undefined\<close> and no tone.
\<close>

theorem getToneByKeyword_type_error:
  "toLowerCase ''Cave'' = ''cave'' \<and> LightingPresets defaultParam ''cave'' = None
   \<and> ''cave'' \<noteq> OutdoorLightingKeyword defaultParam
   \<and> getToneByKeyword defaultParam (TimeSpan_new 0 12 0) (Some ''Cave'') = Inl TypeError
   \<and> toLowerCase ''Dark'' = ''dark''
   \<and> LightingPresets defaultParam ''dark'' = Some [-68, -68, -68, 0]
   \<and> getToneByKeyword defaultParam (TimeSpan_new 0 12 0) (Some ''Dark'') = Inl TypeError
   \<and> getToneByKeyword defaultParam (TimeSpan_new 0 12 0) None = Inr None
   \<and> getToneByKeyword defaultParam (TimeSpan_new 0 12 0) (Some []) = Inr None
   \<and> (\<forall>P this. getToneByKeyword P this None = Inr None
               \<and> getToneByKeyword P this (Some []) = Inr None)"
proof -
  have l: "toLowerCase ''Cave'' = ''cave''" "toLowerCase ''Dark'' = ''dark''"
    by code_simp+
  show ?thesis
    by (simp add: l getToneByKeyword_def Let_def SimpleLightingPresets_def DEFAULT_TONE_def
        defaultParam_def defaultPresets_def)
qed

section \<open>The clock controller and the hook\<close>

lemma Game_Switches_setValue_positive:
  "Game_Switches_setValue g (Some (1 + int n)) v = Inl (TypeError, g)"
  by (simp add: Game_Switches_setValue_def js_positive_def truthy_def DayNight_switching_def
      McKathlin_Param_def)

lemma updateTime_writes_nothing: "updateTime P g = Inr g"
  by (simp add: updateTime_def Game_Switches_setValue_def Game_Switches_setValue_original_def
      Game_Variables_setValue_def js_positive_def DaytimeSwitch_def NightSwitch_def
      DaysPassedVariable_def CurrentHourVariable_def CurrentMinuteVariable_def Let_def)

lemma changeTimeTo_result:
  "changeTimeTo P g minutes
     = Inr (g\<lparr>gameSystem_totalMinutes := minutes, DayNightCycle_switching := False,
              timeChangedCount := Suc (timeChangedCount g)\<rparr>)"
  by (simp add: changeTimeTo_def updateTime_writes_nothing onTimeChanged_def Let_def)

lemma reset_result:
  "reset P g
     = Inr (g\<lparr>gameSystem_totalMinutes := 0, DayNightCycle_switching := False,
              timeChangedCount := Suc (Suc (timeChangedCount g))\<rparr>)"
  by (simp add: reset_def DayNightCycle_setTotalMinutes_def DayNightCycle_setForwardTo_def
      changeTimeTo_result setTotalMinutes_def now_def or_zero_def NewGameStartTimeAsMinutes_def
      timespan_eval)

text \<open>
  C2.  The claim: a write to a reserved switch from outside the controller fails with a
  PolicyViolation while the guard is unset, and during the sync step the guard is set so
  that the controller's own writes are not rejected.  The code: the hook tests
  \<^verbatim>\<open>McKathlin.DayNight._switching\<close>, which is never assigned (the controller sets
  \<^verbatim>\<open>McKathlin.DayNightCycle._switching\<close>), and then reads the reserved ids from
  \<^verbatim>\<open>McKathlin.Param\<close>, which is never assigned either (they are stored in
  \<^verbatim>\<open>McKathlin.DayNight.Param\<close>).  With switch 1 configured as the daytime switch, a
  write of switch 1 from outside throws a TypeError before the reserved ids are compared;
  so does a write of the unreserved switch 5, and of every switch with a positive id.
  The controller's sync step passes the hook only because \<open>updateTime\<close> writes to
  \<^verbatim>\<open>Param.DaytimeSwitch\<close> and \<^verbatim>\<open>Param.NightSwitch\<close>, never assigned: changing the time
  to 22:00 leaves the night switch 2 off.
\<close>

theorem reserved_write_type_error:
  "DaytimeSwitchID switchesParam = 1 \<and> NightSwitchID switchesParam = 2
   \<and> Game_Switches_setValue afternoonGame (Some 1) True = Inl (TypeError, afternoonGame)
   \<and> Game_Switches_setValue afternoonGame (Some 5) True = Inl (TypeError, afternoonGame)
   \<and> (\<forall>g n v. Game_Switches_setValue g (Some (1 + int n)) v = Inl (TypeError, g))
   \<and> changeTimeTo switchesParam afternoonGame (2 * 1440 + 22 * 60)
       = Inr (afternoonGame\<lparr>gameSystem_totalMinutes := 2 * 1440 + 22 * 60,
                             timeChangedCount := 1\<rparr>)
   \<and> \<not> gameSwitches afternoonGame 2"
proof -
  have a: "Game_Switches_setValue g (Some 1) True = Inl (TypeError, g)"
    and b: "Game_Switches_setValue g (Some 5) True = Inl (TypeError, g)" for g
    by (simp_all add: Game_Switches_setValue_def js_positive_def truthy_def
        DayNight_switching_def McKathlin_Param_def)
  show ?thesis
    by (simp add: a b Game_Switches_setValue_positive changeTimeTo_result switchesParam_def
        defaultParam_def afternoonGame_def newGame_def)
qed

text \<open>
  C8.  The claim: after \<open>reset\<close> with new-game start 8:00 AM the clock is at minute
  480 of day 0.  The code: \<open>reset\<close> moves the clock forward from 0 to the time of day
  \<^verbatim>\<open>new TimeSpan(0, 0, Param.NewGameStartTimeAsMinutes)\<close>; that property is never
  assigned (the setting is stored as \<^verbatim>\<open>NewGameStartTime\<close>), the constructor turns
  \<^verbatim>\<open>undefined\<close> into 0, and the clock stays at minute 0, from a new game as from any
  other state and with any settings.
\<close>

theorem reset_stays_at_zero:
  "totalMinutes (NewGameStartTime defaultParam) = 480
   \<and> reset defaultParam newGame = Inr (newGame\<lparr>timeChangedCount := 2\<rparr>)
   \<and> gameSystem_totalMinutes (newGame\<lparr>timeChangedCount := 2\<rparr>) = 0
   \<and> reset defaultParam afternoonGame
       = Inr (afternoonGame\<lparr>gameSystem_totalMinutes := 0, timeChangedCount := 2\<rparr>)
   \<and> (\<forall>P g. \<exists>g'. reset P g = Inr g' \<and> getTotalMinutes (now g') = 0 \<and> getDays (now g') = 0)"
  by (simp add: reset_result defaultParam_def afternoonGame_def newGame_def now_def
      timespan_eval)

section \<open>The backtracking matcher against the described texts\<close>

text \<open>
  Every result of \<open>matchHere\<close> splits the text into a piece that the expression
  describes and the rest, and every such split is among the results; hence the search
  fails exactly on the texts that contain no described piece.
\<close>

lemma reps_sound:
  "t \<in> set (reps mn mx cs s) \<Longrightarrow>
   \<exists>w. s = w @ t \<and> set w \<subseteq> set cs \<and> mn \<le> length w \<and> (\<forall>k. mx = Some k \<longrightarrow> length w \<le> k)"
proof (induction s arbitrary: mn mx)
  case Nil
  then show ?case by (simp split: if_splits)
next
  case (Cons c s)
  from Cons.prems consider
    (step) "c \<in> set cs" "mx \<noteq> Some 0" "t \<in> set (reps (mn - 1) (map_option (\<lambda>k. k - 1) mx) cs s)"
    | (stop) "mn = 0" "t = c # s"
    by (auto split: if_splits)
  then show ?case
  proof cases
    case step
    from Cons.IH [OF step(3)] obtain w where
      w: "s = w @ t" "set w \<subseteq> set cs" "mn - 1 \<le> length w"
      "\<forall>k. map_option (\<lambda>k. k - 1) mx = Some k \<longrightarrow> length w \<le> k"
      by blast
    have "\<forall>k. mx = Some k \<longrightarrow> length (c # w) \<le> k"
      using w(4) step(2) by (cases mx) auto
    with w step(1) show ?thesis
      by (intro exI [of _ "c # w"]) auto
  next
    case stop
    then show ?thesis by simp
  qed
qed

lemma reps_complete:
  "set w \<subseteq> set cs \<Longrightarrow> mn \<le> length w \<Longrightarrow> (\<forall>k. mx = Some k \<longrightarrow> length w \<le> k) \<Longrightarrow>
   t \<in> set (reps mn mx cs (w @ t))"
proof (induction w arbitrary: mn mx)
  case Nil
  then show ?case by (cases t) simp_all
next
  case (Cons c w)
  have "mx \<noteq> Some 0" using Cons.prems(3) by auto
  moreover have "t \<in> set (reps (mn - 1) (map_option (\<lambda>k. k - 1) mx) cs (w @ t))"
    using Cons.prems by (intro Cons.IH) (auto simp: le_diff_conv)
  ultimately show ?case using Cons.prems(1) by simp
qed

lemma matchHere_sound:
  "(t, c') \<in> set (matchHere r (s, c)) \<Longrightarrow> \<exists>w \<in> lang r. s = w @ t"
proof (induction r arbitrary: s c t c')
  case (Chars cs)
  then show ?case by (auto split: list.splits if_splits)
next
  case (Seq a b)
  then obtain u cu where u: "(u, cu) \<in> set (matchHere a (s, c))" "(t, c') \<in> set (matchHere b (u, cu))"
    by auto
  from Seq.IH(1) [OF u(1)] obtain w1 where w1: "w1 \<in> lang a" "s = w1 @ u" by blast
  from Seq.IH(2) [OF u(2)] obtain w2 where w2: "w2 \<in> lang b" "u = w2 @ t" by blast
  have "w1 @ w2 \<in> lang (Seq a b)" using w1(1) w2(1) by auto
  moreover have "s = (w1 @ w2) @ t" using w1(2) w2(2) by simp
  ultimately show ?case by blast
next
  case (Opt r)
  then show ?case by auto
next
  case (Rep mn mx cs)
  then have "t \<in> set (reps mn mx cs s)" by auto
  from reps_sound [OF this] show ?case by auto
next
  case (Group n r)
  then show ?case by auto
qed

lemma matchHere_complete:
  "w \<in> lang r \<Longrightarrow> \<exists>c'. (t, c') \<in> set (matchHere r (w @ t, c))"
proof (induction r arbitrary: w t c)
  case (Chars cs)
  then show ?case by auto
next
  case (Seq a b)
  then obtain u v where uv: "w = u @ v" "u \<in> lang a" "v \<in> lang b" by auto
  from Seq.IH(1) [OF uv(2), of "v @ t" c] obtain cu where
    "(v @ t, cu) \<in> set (matchHere a (u @ v @ t, c))" by blast
  moreover from Seq.IH(2) [OF uv(3), of t cu] obtain c' where
    "(t, c') \<in> set (matchHere b (v @ t, cu))" by blast
  ultimately show ?case using uv(1) by force
next
  case (Opt r)
  then show ?case by (cases "w = []") auto
next
  case (Rep mn mx cs)
  then have "t \<in> set (reps mn mx cs (w @ t))"
    by (intro reps_complete) auto
  then show ?case by auto
next
  case (Group n r)
  from Group.IH [OF Group.prems [simplified], of t c] show ?case
    by force
qed

lemma matchHere_empty_iff:
  "matchHere r (s, c) = [] \<longleftrightarrow> \<not> (\<exists>w q. s = w @ q \<and> w \<in> lang r)"
proof
  assume e: "matchHere r (s, c) = []"
  show "\<not> (\<exists>w q. s = w @ q \<and> w \<in> lang r)"
  proof
    assume "\<exists>w q. s = w @ q \<and> w \<in> lang r"
    then obtain w q where "s = w @ q" "w \<in> lang r" by blast
    with matchHere_complete [of w r q c] e show False by auto
  qed
next
  assume n: "\<not> (\<exists>w q. s = w @ q \<and> w \<in> lang r)"
  show "matchHere r (s, c) = []"
  proof (cases "matchHere r (s, c)")
    case Nil
    then show ?thesis .
  next
    case (Cons x xs)
    then have "(fst x, snd x) \<in> set (matchHere r (s, c))" by simp
    from matchHere_sound [OF this] n show ?thesis by blast
  qed
qed

lemma search_None_iff: "search r s = None \<longleftrightarrow> \<not> contains r s"
proof (induction s)
  case Nil
  show ?case
    using matchHere_empty_iff [of r "[]" Map.empty]
    by (auto simp add: contains_def split: list.splits)
next
  case (Cons a s)
  have c: "contains r (a # s) \<longleftrightarrow> (\<exists>w q. a # s = w @ q \<and> w \<in> lang r) \<or> contains r s"
  proof
    assume "contains r (a # s)"
    then obtain p w q where pwq: "a # s = p @ w @ q" "w \<in> lang r"
      by (auto simp add: contains_def)
    show "(\<exists>w q. a # s = w @ q \<and> w \<in> lang r) \<or> contains r s"
    proof (cases p)
      case Nil
      with pwq show ?thesis by auto
    next
      case (Cons b p')
      with pwq have "s = p' @ w @ q" by simp
      with pwq(2) show ?thesis by (auto simp add: contains_def)
    qed
  next
    assume "(\<exists>w q. a # s = w @ q \<and> w \<in> lang r) \<or> contains r s"
    then show "contains r (a # s)"
    proof
      assume "\<exists>w q. a # s = w @ q \<and> w \<in> lang r"
      then obtain w q where "a # s = [] @ w @ q" "w \<in> lang r" by auto
      then show ?thesis unfolding contains_def by blast
    next
      assume "contains r s"
      then obtain p w q where "s = p @ w @ q" "w \<in> lang r" by (auto simp add: contains_def)
      then have "a # s = (a # p) @ w @ q" "w \<in> lang r" by simp_all
      then show ?thesis unfolding contains_def by blast
    qed
  qed
  show ?case
    using Cons.IH matchHere_empty_iff [of r "a # s" Map.empty] c
    by (auto split: list.splits)
qed

lemma search_Some_in:
  "search r s = Some m \<Longrightarrow> \<exists>u t. (t, m) \<in> set (matchHere r (u, Map.empty))"
proof (induction s)
  case Nil
  then obtain x xs where "matchHere r ([], Map.empty) = x # xs" "m = snd x"
    by (auto split: list.splits)
  then have "(fst x, m) \<in> set (matchHere r ([], Map.empty))" by simp
  then show ?case by blast
next
  case (Cons a s)
  show ?case
  proof (cases "matchHere r (a # s, Map.empty)")
    case Nil
    with Cons show ?thesis by simp
  next
    case (Cons x xs)
    with Cons.prems have "m = snd x" by simp
    with Cons have "(fst x, m) \<in> set (matchHere r (a # s, Map.empty))" by simp
    then show ?thesis by blast
  qed
qed

text \<open>
  Capture groups: a group records the piece it matched, and an expression leaves the
  groups that do not occur in it as they were.
\<close>

lemma matchHere_Seq_iff:
  "x \<in> set (matchHere (Seq a b) st) \<longleftrightarrow> (\<exists>y \<in> set (matchHere a st). x \<in> set (matchHere b y))"
  by simp

lemma matchHere_Group_capture:
  assumes "(t, c') \<in> set (matchHere (Group n r) (s, c))"
  shows "\<exists>w \<in> lang r. s = w @ t \<and> c' n = Some w"
proof -
  from assms obtain c0 where c0: "(t, c0) \<in> set (matchHere r (s, c))"
    and c': "c' = c0(n \<mapsto> take (length s - length t) s)"
    by auto
  from matchHere_sound [OF c0] obtain w where "w \<in> lang r" "s = w @ t" by blast
  with c' show ?thesis by auto
qed

lemma matchHere_preserves:
  "(t, c') \<in> set (matchHere r (s, c)) \<Longrightarrow> n \<notin> groupsOf r \<Longrightarrow> c' n = c n"
proof (induction r arbitrary: s c t c')
  case (Chars cs)
  then show ?case by (auto split: list.splits if_splits)
next
  case (Seq a b)
  from Seq.prems(1) obtain u cu where
    u: "(u, cu) \<in> set (matchHere a (s, c))" "(t, c') \<in> set (matchHere b (u, cu))"
    by auto
  from Seq.IH(1) [OF u(1)] Seq.IH(2) [OF u(2)] Seq.prems(2) show ?case by simp
next
  case (Opt r)
  then show ?case by auto
next
  case (Rep mn mx cs)
  then show ?case by auto
next
  case (Group k r)
  then show ?case by auto
qed

lemma matchHere_Seq_Group_capture:
  assumes "x \<in> set (matchHere (Seq (Group n r) R) st)" and "n \<notin> groupsOf R"
  shows "\<exists>w \<in> lang r. snd x n = Some w"
proof -
  from assms(1) obtain y where y: "y \<in> set (matchHere (Group n r) st)"
    and x: "x \<in> set (matchHere R y)"
    unfolding matchHere_Seq_iff by blast
  from y have "(fst y, snd y) \<in> set (matchHere (Group n r) (fst st, snd st))" by simp
  from matchHere_Group_capture [OF this] obtain w where w: "w \<in> lang r" "snd y n = Some w"
    by blast
  from x have "(fst x, snd x) \<in> set (matchHere R (fst y, snd y))" by simp
  from matchHere_preserves [OF this assms(2)] w show ?thesis by auto
qed

lemma matchHere_Seq_rest:
  "x \<in> set (matchHere (Seq a b) st) \<Longrightarrow> \<exists>y. x \<in> set (matchHere b y)"
  unfolding matchHere_Seq_iff by blast

section \<open>Parsing a time of day\<close>

lemma digit_not_colon [simp]: "CHR '':'' \<notin> set digit" "CHR '' '' \<notin> set digit"
  by (simp_all add: digit_def)

lemma length_one_or_two:
  "length h = 1 \<or> length h = 2 \<Longrightarrow> \<exists>a b. h = [a] \<or> h = [a, b]"
  by (cases h; cases "tl h") auto

lemma length_two: "length m = 2 \<Longrightarrow> \<exists>c d. m = [c, d]"
  by (cases m; cases "tl m") auto


lemma search_time_plain:
  assumes "isDigits h" "length h = 1 \<or> length h = 2" "isDigits m" "length m = 2"
  shows "\<exists>caps. search timeOfDay_re (h @ '':'' @ m) = Some caps
           \<and> caps 1 = Some h \<and> caps 2 = Some m \<and> caps 3 = None"
proof -
  from length_one_or_two [OF assms(2)] obtain a b where h: "h = [a] \<or> h = [a, b]" by blast
  from length_two [OF assms(4)] obtain c d where m: "m = [c, d]" by blast
  from h show ?thesis
    using assms(1,3) m
    by (auto simp add: isDigits_def timeOfDay_re_def split: list.splits)
qed




lemma parseTimeOfDay_plain:
  assumes "isDigits h" "length h = 1 \<or> length h = 2" "isDigits m" "length m = 2"
  shows "parseTimeOfDay (h @ '':'' @ m) = Inr (TimeSpan_new 0 (Number h) (Number m))"
proof -
  from search_time_plain [OF assms] obtain caps where
    "search timeOfDay_re (h @ '':'' @ m) = Some caps"
    "caps 1 = Some h" "caps 2 = Some m" "caps 3 = None"
    by blast
  then show ?thesis
    by (simp add: parseTimeOfDay_def capture_def Let_def)
qed

lemma lang_Seq_iff: "w \<in> lang (Seq a b) \<longleftrightarrow> (\<exists>u v. w = u @ v \<and> u \<in> lang a \<and> v \<in> lang b)"
  by auto








text \<open>
  Groups 1 and 2 take part in every match of the time expression, so \<open>capture\<close>
  never falls back on its default there.
\<close>

lemma timeOfDay_re_groups:
  assumes "search timeOfDay_re s = Some m"
  shows "(\<exists>h. m 1 = Some h \<and> isDigits h \<and> (length h = 1 \<or> length h = 2))
       \<and> (\<exists>mi. m 2 = Some mi \<and> isDigits mi \<and> length mi = 2)"
proof -
  let ?tail = "Seq (Opt (Chars '' '')) (Opt (Seq (Group 3 (Chars ''apAP'')) (Opt (Chars ''mM''))))"
  from search_Some_in [OF assms] obtain u t where
    "(t, m) \<in> set (matchHere timeOfDay_re (u, Map.empty))" by blast
  then obtain y1 y2 y3 where
    y1: "y1 \<in> set (matchHere (Group 1 (Rep 1 (Some 2) digit)) (u, Map.empty))"
    and y2: "y2 \<in> set (matchHere (Chars '':'') y1)"
    and y3: "y3 \<in> set (matchHere (Group 2 (Rep 2 (Some 2) digit)) y2)"
    and y4: "(t, m) \<in> set (matchHere ?tail y3)"
    unfolding timeOfDay_re_def matchHere_Seq_iff by blast
  from y1 have "(fst y1, snd y1) \<in> set (matchHere (Group 1 (Rep 1 (Some 2) digit)) (u, Map.empty))"
    by simp
  from matchHere_Group_capture [OF this] obtain h where
    h: "h \<in> lang (Rep 1 (Some 2) digit)" "snd y1 1 = Some h" by blast
  from y2 have "(fst y2, snd y2) \<in> set (matchHere (Chars '':'') (fst y1, snd y1))" by simp
  from matchHere_preserves [OF this, of 1] matchHere_preserves [OF this, of 2]
  have p2: "snd y2 1 = snd y1 1" by simp
  from y3 have y3': "(fst y3, snd y3) \<in> set (matchHere (Group 2 (Rep 2 (Some 2) digit)) (fst y2, snd y2))"
    by simp
  from matchHere_preserves [OF y3', of 1] have p3: "snd y3 1 = snd y2 1" by simp
  from matchHere_Group_capture [OF y3'] obtain mi where
    mi: "mi \<in> lang (Rep 2 (Some 2) digit)" "snd y3 2 = Some mi" by blast
  from y4 have y4': "(t, m) \<in> set (matchHere ?tail (fst y3, snd y3))" by simp
  from matchHere_preserves [OF y4', of 1] matchHere_preserves [OF y4', of 2]
  have p4: "m 1 = snd y3 1" "m 2 = snd y3 2" by simp_all
  have "m 1 = Some h" using p4(1) p3 p2 h(2) by simp
  moreover have "isDigits h \<and> (length h = 1 \<or> length h = 2)"
    using h(1) by (auto simp add: isDigits_def)
  moreover have "m 2 = Some mi" using p4(2) mi(2) by simp
  moreover have "isDigits mi \<and> length mi = 2"
    using mi(1) by (auto simp add: isDigits_def)
  ultimately show ?thesis by blast
qed

lemma parseTimeOfDay_examples:
  "parseTimeOfDay ''12:00 AM'' = Inr (TimeSpan_new 0 0 0)"
  "parseTimeOfDay ''12:00 PM'' = Inr (TimeSpan_new 0 12 0)"
  "parseTimeOfDay ''7:05 AM'' = Inr (TimeSpan_new 0 7 5)"
  "parseTimeOfDay ''7:05 PM'' = Inr (TimeSpan_new 0 19 5)"
  "parseTimeOfDay ''25:75'' = Inr (TimeSpan_new 0 25 75)"
  by code_simp+


lemma Number_examples:
  "Number ''7'' = 7" "Number ''05'' = 5" "Number ''25'' = 25" "Number ''75'' = 75"
  by (simp_all add: Number_def digit_value_def)

lemma isDigits_examples:
  "isDigits ''7''" "isDigits ''05''" "isDigits ''25''" "isDigits ''75''"
  by (simp_all add: isDigits_def digit_def)


lemma getMinutesOfDay_bound: "getMinutesOfDay ts \<le> 1439"
proof -
  have "\<bar>totalMinutes ts\<bar> mod 1440 < 1440" by simp
  then have m: "\<bar>totalMinutes ts\<bar> mod 1440 \<le> 1439" by simp
  have n: "0 \<le> \<bar>totalMinutes ts\<bar> mod 1440" by simp
  show ?thesis
    using m n
    by (cases "totalMinutes ts" "0::int" rule: linorder_cases)
      (simp_all add: getMinutesOfDay_def js_rem_def MINUTES_PER_DAY_eq)
qed

text \<open>
  C10, as stated, says that the minute of the day of a parsed time can exceed 1439.
  It cannot: for \<^verbatim>\<open>"25:75"\<close> the minute of the day is 135, and no parsed time has a
  minute of the day above 1439.
\<close>

theorem parseTimeOfDay_minute_of_day_bounded:
  "parseTimeOfDay ''25:75'' = Inr (TimeSpan_new 0 25 75)
   \<and> getMinutesOfDay (TimeSpan_new 0 25 75) = 135
   \<and> \<not> (\<exists>s ts. parseTimeOfDay s = Inr ts \<and> 1439 < getMinutesOfDay ts)"
proof (intro conjI)
  show "parseTimeOfDay ''25:75'' = Inr (TimeSpan_new 0 25 75)"
    by (rule parseTimeOfDay_examples)
  show "getMinutesOfDay (TimeSpan_new 0 25 75) = 135"
    by (simp add: timespan_eval)
  show "\<not> (\<exists>s ts. parseTimeOfDay s = Inr ts \<and> 1439 < getMinutesOfDay ts)"
    using getMinutesOfDay_bound by (auto simp add: not_less)
qed

text \<open>
  C10, amended.  \<open>parseTimeOfDay\<close> does not validate the range of the hour or minute
  field: every text of one or two digits, a colon and two digits is accepted, with total
  minutes \<open>60 * hour + minute\<close>.  For \<^verbatim>\<open>"25:75"\<close> the total is 1575, above 1439, and
  the day component is 1; the minute of the day, a remainder by 1440, is 135 and for
  every parsed time at most 1439.
\<close>

theorem parseTimeOfDay_no_range_check:
  "(isDigits h \<and> (length h = 1 \<or> length h = 2) \<and> isDigits m \<and> length m = 2 \<longrightarrow>
      (\<exists>ts. parseTimeOfDay (h @ '':'' @ m) = Inr ts
           \<and> getTotalMinutes ts = 60 * Number h + Number m))
   \<and> parseTimeOfDay ''25:75'' = Inr (TimeSpan_new 0 25 75)
   \<and> getTotalMinutes (TimeSpan_new 0 25 75) = 60 * 25 + 75
   \<and> getDays (TimeSpan_new 0 25 75) = 1
   \<and> getMinutesOfDay (TimeSpan_new 0 25 75) = 135
   \<and> (parseTimeOfDay s = Inr ts \<longrightarrow> getMinutesOfDay ts \<le> 1439)"
proof (intro conjI impI)
  assume "isDigits h \<and> (length h = 1 \<or> length h = 2) \<and> isDigits m \<and> length m = 2"
  then have "parseTimeOfDay (h @ '':'' @ m) = Inr (TimeSpan_new 0 (Number h) (Number m))"
    by (intro parseTimeOfDay_plain) simp_all
  then show "\<exists>ts. parseTimeOfDay (h @ '':'' @ m) = Inr ts
           \<and> getTotalMinutes ts = 60 * Number h + Number m"
    by (simp add: getTotalMinutes_def TimeSpan_new_def MINUTES_PER_HOUR_def)
next
  show "parseTimeOfDay ''25:75'' = Inr (TimeSpan_new 0 25 75)"
    by (rule parseTimeOfDay_examples)
next
  show "getMinutesOfDay ts \<le> 1439" by (rule getMinutesOfDay_bound)
qed (simp_all add: timespan_eval)

theorem parseTimeOfDay_no_range_check_witness:
  "isDigits ''25'' \<and> isDigits ''75''
   \<and> (\<exists>ts. parseTimeOfDay (''25'' @ '':'' @ ''75'') = Inr ts \<and> getTotalMinutes ts = 1575)"
proof -
  have h: "isDigits ''25'' \<and> (length ''25'' = 1 \<or> length ''25'' = 2) \<and> isDigits ''75''
           \<and> length ''75'' = 2"
    by (simp add: isDigits_examples)
  have "\<exists>ts. parseTimeOfDay (''25'' @ '':'' @ ''75'') = Inr ts
           \<and> getTotalMinutes ts = 60 * Number ''25'' + Number ''75''"
    using h parseTimeOfDay_no_range_check [where h = "''25''" and m = "''75''"]
    by blast
  then show ?thesis
    by (simp add: Number_examples isDigits_examples)
qed

section \<open>Parsing a tone\<close>

lemma digit_value_nonneg: "c \<in> set digit \<Longrightarrow> 0 \<le> digit_value c"
  by (auto simp add: digit_def digit_value_def)

lemma foldl_digits_nonneg:
  "set w \<subseteq> set digit \<Longrightarrow> 0 \<le> n \<Longrightarrow> 0 \<le> foldl (\<lambda>n c. 10 * n + digit_value c) n w"
proof (induction w arbitrary: n)
  case Nil
  then show ?case by simp
next
  case (Cons c w)
  have "0 \<le> 10 * n + digit_value c"
    using Cons.prems digit_value_nonneg [of c] by simp
  with Cons show ?case by simp
qed

lemma Number_nonneg: "isDigits w \<Longrightarrow> 0 \<le> Number w"
  unfolding isDigits_def Number_def by (rule foldl_digits_nonneg) simp_all

lemma minus_not_digit [simp]: "CHR ''-'' \<notin> set digit"
  by (simp add: digit_def)

lemma parseInt_unsigned: "isUnsignedInteger w \<Longrightarrow> parseInt w = Number w"
  by (cases w) (auto simp add: isUnsignedInteger_def isDigits_def parseInt_def)

lemma parseInt_nonneg: "isUnsignedInteger w \<Longrightarrow> 0 \<le> parseInt w"
  using parseInt_unsigned [of w] Number_nonneg [of w] by (simp add: isUnsignedInteger_def)

lemma lang_unsigned: "w \<in> lang (Rep 1 None digit) \<longleftrightarrow> isUnsignedInteger w"
  by (cases w) (auto simp add: isUnsignedInteger_def isDigits_def)

lemma lang_signed:
  "w \<in> lang (Group n (Seq (Opt (Chars ''-'')) (Rep 1 None digit))) \<longleftrightarrow> isSignedInteger w"
proof
  assume "w \<in> lang (Group n (Seq (Opt (Chars ''-'')) (Rep 1 None digit)))"
  then obtain u v where "w = u @ v" "u = [] \<or> u = ''-''" "isUnsignedInteger v"
    unfolding lang.simps(5) lang_Seq_iff lang_unsigned by auto
  then show "isSignedInteger w"
    unfolding isSignedInteger_def by auto
next
  assume "isSignedInteger w"
  then consider "isUnsignedInteger w" | d where "w = ''-'' @ d" "isUnsignedInteger d"
    unfolding isSignedInteger_def by auto
  then show "w \<in> lang (Group n (Seq (Opt (Chars ''-'')) (Rep 1 None digit)))"
  proof cases
    case 1
    then have "w = [] @ w \<and> [] \<in> lang (Opt (Chars ''-'')) \<and> w \<in> lang (Rep 1 None digit)"
      unfolding lang_unsigned by simp
    then show ?thesis unfolding lang.simps(5) lang_Seq_iff by blast
  next
    case 2
    then have "w = ''-'' @ d \<and> ''-'' \<in> lang (Opt (Chars ''-'')) \<and> d \<in> lang (Rep 1 None digit)"
      unfolding lang_unsigned by simp
    then show ?thesis unfolding lang.simps(5) lang_Seq_iff by blast
  qed
qed

lemma lang_separator: "w \<in> lang (Rep 1 None '', '') \<longleftrightarrow> isSeparator w"
  by (cases w) (auto simp add: isSeparator_def)

lemma lang_integer_separator:
  "w \<in> lang (Seq (Group n (Seq (Opt (Chars ''-'')) (Rep 1 None digit)))
              (Seq (Rep 1 None '', '') R)) \<longleftrightarrow>
     (\<exists>a s r. w = a @ s @ r \<and> isSignedInteger a \<and> isSeparator s \<and> r \<in> lang R)"
  unfolding lang_Seq_iff lang_signed lang_separator
  by blast

lemma lang_tone_re:
  "w \<in> lang tone_re \<longleftrightarrow>
     (\<exists>a s1 b s2 c s3 d. w = a @ s1 @ b @ s2 @ c @ s3 @ d
        \<and> isSignedInteger a \<and> isSeparator s1 \<and> isSignedInteger b \<and> isSeparator s2
        \<and> isSignedInteger c \<and> isSeparator s3 \<and> isUnsignedInteger d)"
proof
  assume "w \<in> lang tone_re"
  then obtain a s1 r1 where 1: "w = a @ s1 @ r1" "isSignedInteger a" "isSeparator s1"
    and "r1 \<in> lang (Seq (Group 2 (Seq (Opt (Chars ''-'')) (Rep 1 None digit)))
           (Seq (Rep 1 None '', '')
           (Seq (Group 3 (Seq (Opt (Chars ''-'')) (Rep 1 None digit)))
           (Seq (Rep 1 None '', '') (Group 4 (Rep 1 None digit))))))"
    unfolding tone_re_def lang_integer_separator [where n = 1] by blast
  then obtain b s2 r2 where 2: "r1 = b @ s2 @ r2" "isSignedInteger b" "isSeparator s2"
    and "r2 \<in> lang (Seq (Group 3 (Seq (Opt (Chars ''-'')) (Rep 1 None digit)))
           (Seq (Rep 1 None '', '') (Group 4 (Rep 1 None digit))))"
    unfolding lang_integer_separator [where n = 2] by blast
  then obtain c s3 d where 3: "r2 = c @ s3 @ d" "isSignedInteger c" "isSeparator s3"
    and "d \<in> lang (Group 4 (Rep 1 None digit))"
    unfolding lang_integer_separator [where n = 3] by blast
  then have 4: "isUnsignedInteger d"
    unfolding lang.simps(5) lang_unsigned by simp
  have "w = a @ s1 @ b @ s2 @ c @ s3 @ d"
    using 1(1) 2(1) 3(1) by simp
  with 1(2,3) 2(2,3) 3(2,3) 4
  show "\<exists>a s1 b s2 c s3 d. w = a @ s1 @ b @ s2 @ c @ s3 @ d
        \<and> isSignedInteger a \<and> isSeparator s1 \<and> isSignedInteger b \<and> isSeparator s2
        \<and> isSignedInteger c \<and> isSeparator s3 \<and> isUnsignedInteger d"
    by blast
next
  assume "\<exists>a s1 b s2 c s3 d. w = a @ s1 @ b @ s2 @ c @ s3 @ d
        \<and> isSignedInteger a \<and> isSeparator s1 \<and> isSignedInteger b \<and> isSeparator s2
        \<and> isSignedInteger c \<and> isSeparator s3 \<and> isUnsignedInteger d"
  then obtain a s1 b s2 c s3 d where w: "w = a @ s1 @ b @ s2 @ c @ s3 @ d"
    and i: "isSignedInteger a" "isSeparator s1" "isSignedInteger b" "isSeparator s2"
    "isSignedInteger c" "isSeparator s3" "isUnsignedInteger d"
    by blast
  have "d \<in> lang (Group 4 (Rep 1 None digit))"
    using i(7) unfolding lang.simps(5) lang_unsigned .
  then have "c @ s3 @ d \<in> lang (Seq (Group 3 (Seq (Opt (Chars ''-'')) (Rep 1 None digit)))
           (Seq (Rep 1 None '', '') (Group 4 (Rep 1 None digit))))"
    using i(5,6) unfolding lang_integer_separator [where n = 3] by blast
  then have "b @ s2 @ c @ s3 @ d \<in> lang (Seq (Group 2 (Seq (Opt (Chars ''-'')) (Rep 1 None digit)))
           (Seq (Rep 1 None '', '')
           (Seq (Group 3 (Seq (Opt (Chars ''-'')) (Rep 1 None digit)))
           (Seq (Rep 1 None '', '') (Group 4 (Rep 1 None digit))))))"
    using i(3,4) unfolding lang_integer_separator [where n = 2] by blast
  then have "a @ s1 @ b @ s2 @ c @ s3 @ d \<in> lang tone_re"
    using i(1,2) unfolding tone_re_def lang_integer_separator [where n = 1] by blast
  with w show "w \<in> lang tone_re" by simp
qed

lemma contains_tone_re: "contains tone_re s \<longleftrightarrow> hasTonePattern s"
proof
  assume "contains tone_re s"
  then obtain p w q where s: "s = p @ w @ q" "w \<in> lang tone_re"
    unfolding contains_def by blast
  from s(2) obtain a s1 b s2 c s3 d where "w = a @ s1 @ b @ s2 @ c @ s3 @ d"
    "isSignedInteger a" "isSeparator s1" "isSignedInteger b" "isSeparator s2"
    "isSignedInteger c" "isSeparator s3" "isUnsignedInteger d"
    unfolding lang_tone_re by blast
  with s(1) have "s = p @ a @ s1 @ b @ s2 @ c @ s3 @ d @ q
        \<and> isSignedInteger a \<and> isSeparator s1 \<and> isSignedInteger b \<and> isSeparator s2
        \<and> isSignedInteger c \<and> isSeparator s3 \<and> isUnsignedInteger d"
    by simp
  then show "hasTonePattern s" unfolding hasTonePattern_def by blast
next
  assume "hasTonePattern s"
  then obtain p a s1 b s2 c s3 d q where a: "s = p @ a @ s1 @ b @ s2 @ c @ s3 @ d @ q"
    "isSignedInteger a" "isSeparator s1" "isSignedInteger b" "isSeparator s2"
    "isSignedInteger c" "isSeparator s3" "isUnsignedInteger d"
    unfolding hasTonePattern_def by blast
  then have "a @ s1 @ b @ s2 @ c @ s3 @ d \<in> lang tone_re"
    unfolding lang_tone_re by blast
  moreover have "s = p @ (a @ s1 @ b @ s2 @ c @ s3 @ d) @ q" using a(1) by simp
  ultimately show "contains tone_re s" unfolding contains_def by blast
qed

lemma parseTone_error_iff: "parseTone s = Inl ParseError \<longleftrightarrow> \<not> hasTonePattern s"
  using search_None_iff [of tone_re s] contains_tone_re [of s]
  by (auto simp add: parseTone_def Let_def split: option.splits)

lemma tone_re_gray:
  assumes "x \<in> set (matchHere tone_re st)"
  shows "\<exists>w. isUnsignedInteger w \<and> snd x 4 = Some w"
proof -
  from assms obtain y where "x \<in> set (matchHere (Group 4 (Rep 1 None digit)) y)"
    unfolding tone_re_def matchHere_Seq_iff by blast
  then have "(fst x, snd x) \<in> set (matchHere (Group 4 (Rep 1 None digit)) (fst y, snd y))"
    by simp
  from matchHere_Group_capture [OF this] obtain w where
    "w \<in> lang (Rep 1 None digit)" "snd x 4 = Some w"
    by blast
  then show ?thesis
    unfolding lang_unsigned by blast
qed

text \<open>
  All four groups take part in every match of the tone expression, so \<open>capture\<close>
  never falls back on its default there.
\<close>

lemma tone_re_groups:
  assumes "search tone_re s = Some m"
  shows "(\<exists>a. m 1 = Some a \<and> isSignedInteger a) \<and> (\<exists>b. m 2 = Some b \<and> isSignedInteger b)
       \<and> (\<exists>c. m 3 = Some c \<and> isSignedInteger c) \<and> (\<exists>d. m 4 = Some d \<and> isUnsignedInteger d)"
proof -
  let ?int = "Seq (Opt (Chars ''-'')) (Rep 1 None digit)"
  let ?sep = "Rep 1 None '', ''"
  let ?R3 = "Seq (Group 3 ?int) (Seq ?sep (Group 4 (Rep 1 None digit)))"
  let ?R2 = "Seq (Group 2 ?int) (Seq ?sep ?R3)"
  from search_Some_in [OF assms] obtain u t where
    x: "(t, m) \<in> set (matchHere tone_re (u, Map.empty))" by blast
  have x1: "(t, m) \<in> set (matchHere (Seq (Group 1 ?int) (Seq ?sep ?R2)) (u, Map.empty))"
    using x unfolding tone_re_def .
  from matchHere_Seq_Group_capture [OF x1] obtain a where
    a: "a \<in> lang ?int" "m 1 = Some a" by auto
  from matchHere_Seq_rest [OF x1] obtain y1 where "(t, m) \<in> set (matchHere (Seq ?sep ?R2) y1)"
    by blast
  from matchHere_Seq_rest [OF this] obtain y2 where x2: "(t, m) \<in> set (matchHere ?R2 y2)"
    by blast
  from matchHere_Seq_Group_capture [OF x2] obtain b where
    b: "b \<in> lang ?int" "m 2 = Some b" by auto
  from matchHere_Seq_rest [OF x2] obtain y3 where "(t, m) \<in> set (matchHere (Seq ?sep ?R3) y3)"
    by blast
  from matchHere_Seq_rest [OF this] obtain y4 where x3: "(t, m) \<in> set (matchHere ?R3 y4)"
    by blast
  from matchHere_Seq_Group_capture [OF x3] obtain c where
    c: "c \<in> lang ?int" "m 3 = Some c" by auto
  from tone_re_gray [OF x] obtain d where d: "isUnsignedInteger d" "m 4 = Some d" by auto
  have "isSignedInteger a" "isSignedInteger b" "isSignedInteger c"
    using a(1) b(1) c(1) lang_signed [of _ 0] by simp_all
  with a(2) b(2) c(2) d show ?thesis by blast
qed

lemma parseTone_gray_unsigned:
  assumes "parseTone s = Inr t"
  shows "\<exists>r g b gray. t = [r, g, b, gray] \<and> 0 \<le> gray"
proof -
  from assms obtain m where m: "search tone_re s = Some m"
    and t: "t = [parseInt (capture m 1), parseInt (capture m 2), parseInt (capture m 3),
                 parseInt (capture m 4)]"
    by (auto simp add: parseTone_def Let_def split: option.splits)
  from search_Some_in [OF m] obtain u r where "(r, m) \<in> set (matchHere tone_re (u, Map.empty))"
    by blast
  from tone_re_gray [OF this] obtain w where "isUnsignedInteger w" "m 4 = Some w"
    by auto
  then have "0 \<le> parseInt (capture m 4)"
    by (simp add: capture_def parseInt_nonneg)
  with t show ?thesis by blast
qed


lemma parseTone_examples:
  "parseTone ''(-68, -68, -14, 41)'' = Inr [-68, -68, -14, 41]"
  "parseTone ''(1, 2, 3, -4)'' = Inl ParseError"
  "parseTone ''1 2 3 4'' = Inr [1, 2, 3, 4]"
  by code_simp+

text \<open>
  C9, as stated, says that the parser does not reject a sign on the fourth integer and
  that some accepted text has a signed fourth component.  The text
  \<^verbatim>\<open>"(1, 2, 3, -4)"\<close> is rejected, and no accepted text has a negative fourth
  component.
\<close>

theorem parseTone_signed_gray_rejected:
  "parseTone ''(1, 2, 3, -4)'' = Inl ParseError
   \<and> \<not> (\<exists>s r g b gray. parseTone s = Inr [r, g, b, gray] \<and> gray < 0)"
proof (intro conjI)
  show "parseTone ''(1, 2, 3, -4)'' = Inl ParseError"
    by (rule parseTone_examples)
  show "\<not> (\<exists>s r g b gray. parseTone s = Inr [r, g, b, gray] \<and> gray < 0)"
  proof
    assume "\<exists>s r g b gray. parseTone s = Inr [r, g, b, gray] \<and> gray < 0"
    then obtain s r g b gray where p: "parseTone s = Inr [r, g, b, gray]" and n: "gray < 0"
      by blast
    from parseTone_gray_unsigned [OF p] n show False by auto
  qed
qed

text \<open>
  C9, amended.  \<open>parseTone\<close> throws a ParseError exactly when the text contains no
  four integers separated by runs of commas and spaces, the first three with an optional
  minus sign and the fourth without sign; brackets around them are not examined.  Every
  result has four components, the fourth of them not negative.
  \<^verbatim>\<open>"(-68, -68, -14, 41)"\<close> gives \<open>[-68, -68, -14, 41]\<close>, and \<^verbatim>\<open>"1 2 3 4"\<close>, without
  brackets, gives \<open>[1, 2, 3, 4]\<close>.
\<close>

theorem parseTone_pattern:
  "(parseTone s = Inl ParseError \<longleftrightarrow> \<not> hasTonePattern s)
   \<and> (parseTone s = Inr t \<longrightarrow> (\<exists>r g b gray. t = [r, g, b, gray] \<and> 0 \<le> gray))
   \<and> parseTone ''(-68, -68, -14, 41)'' = Inr [-68, -68, -14, 41]
   \<and> parseTone ''1 2 3 4'' = Inr [1, 2, 3, 4]"
  using parseTone_error_iff [of s] parseTone_gray_unsigned [of s t]
  by (simp add: parseTone_examples)

theorem parseTone_pattern_witness:
  "parseTone ''(-68, -68, -14, 41)'' = Inr [-68, -68, -14, 41]
   \<and> hasTonePattern ''(-68, -68, -14, 41)''
   \<and> (\<exists>r g b gray. [-68, -68, -14, 41] = [r, g, b, gray] \<and> (0::int) \<le> gray)
   \<and> \<not> hasTonePattern ''(1, 2, 3, -4)''"
proof -
  have e: "parseTone ''(-68, -68, -14, 41)'' = Inr [-68, -68, -14, 41]"
    by (rule parseTone_examples)
  have "hasTonePattern ''(-68, -68, -14, 41)''"
    using parseTone_pattern [where s = "''(-68, -68, -14, 41)''"] e
    by simp
  moreover have "\<exists>r g b gray. [-68, -68, -14, 41] = [r, g, b, gray] \<and> (0::int) \<le> gray"
    using parseTone_pattern
      [where s = "''(-68, -68, -14, 41)''" and t = "[-68, -68, -14, 41]"] e
    by blast
  moreover have "\<not> hasTonePattern ''(1, 2, 3, -4)''"
    using parseTone_pattern [where s = "''(1, 2, 3, -4)''"]
    by (simp add: parseTone_examples)
  ultimately show ?thesis
    using e by blast
qed

end
